theory Spec2Isabelle
  imports Complex_Main
begin

section \<open>Numbers and vectors\<close>

text \<open>
  The physics core of ZombiesPlanet (\<^verbatim>\<open>src/physics/PhysicsWorld.js\<close>, \<^verbatim>\<open>Collider.js\<close>,
  \<^verbatim>\<open>PhysicsBody.js\<close>, \<^verbatim>\<open>PlanetBody.js\<close>) computes with JavaScript numbers. They are
  modelled as \<^typ>\<open>real\<close>: rounding, infinities and NaN are outside the model, so an
  approximate equality of the specification is an exact one here.

  \<^verbatim>\<open>Vector3\<close> comes from the three.js library. Its operations are written out below as the
  library defines them; the in-place mutation of the library becomes a returned value.
\<close>

datatype vec3 = Vector3 (vx: real) (vy: real) (vz: real)

definition vadd :: "vec3 \<Rightarrow> vec3 \<Rightarrow> vec3" where
  "vadd a b = Vector3 (vx a + vx b) (vy a + vy b) (vz a + vz b)"

definition vsub :: "vec3 \<Rightarrow> vec3 \<Rightarrow> vec3" where
  "vsub a b = Vector3 (vx a - vx b) (vy a - vy b) (vz a - vz b)"

definition multiplyScalar :: "vec3 \<Rightarrow> real \<Rightarrow> vec3" where
  "multiplyScalar a s = Vector3 (vx a * s) (vy a * s) (vz a * s)"

definition divideScalar :: "vec3 \<Rightarrow> real \<Rightarrow> vec3" where
  "divideScalar a s = multiplyScalar a (1 / s)"

definition dot :: "vec3 \<Rightarrow> vec3 \<Rightarrow> real" where
  "dot a b = vx a * vx b + vy a * vy b + vz a * vz b"

definition lengthSq :: "vec3 \<Rightarrow> real" where
  "lengthSq a = vx a * vx a + vy a * vy a + vz a * vz a"

definition vlength :: "vec3 \<Rightarrow> real" where
  "vlength a = sqrt (lengthSq a)"

text \<open>\<^verbatim>\<open>a || d\<close> on numbers: \<^verbatim>\<open>d\<close> when \<^verbatim>\<open>a\<close> is zero, else \<^verbatim>\<open>a\<close>.\<close>

definition orElse :: "real \<Rightarrow> real \<Rightarrow> real" where
  "orElse a d = (if a = 0 then d else a)"

text \<open>three.js: \<^verbatim>\<open>normalize() { return this.divideScalar(this.length() || 1) }\<close>.\<close>

definition normalizeV :: "vec3 \<Rightarrow> vec3" where
  "normalizeV a = divideScalar a (orElse (vlength a) 1)"

definition distanceToSquared :: "vec3 \<Rightarrow> vec3 \<Rightarrow> real" where
  "distanceToSquared a b = lengthSq (vsub a b)"

definition distanceTo :: "vec3 \<Rightarrow> vec3 \<Rightarrow> real" where
  "distanceTo a b = sqrt (distanceToSquared a b)"

text \<open>three.js: each component is \<^verbatim>\<open>Math.max(min, Math.min(max, value))\<close>.\<close>

definition clampV :: "vec3 \<Rightarrow> vec3 \<Rightarrow> vec3 \<Rightarrow> vec3" where
  "clampV a lo hi =
     Vector3 (max (vx lo) (min (vx hi) (vx a)))
             (max (vy lo) (min (vy hi) (vy a)))
             (max (vz lo) (min (vz hi) (vz a)))"

definition zeroV :: vec3 where
  "zeroV = Vector3 0 0 0"

section \<open>Colliders (Collider.js)\<close>

text \<open>
  A collider is a sphere or an axis-aligned box. The \<^verbatim>\<open>Sphere\<close> and \<^verbatim>\<open>Box3\<close> objects that
  the classes keep beside \<^verbatim>\<open>position\<close> are rebuilt from \<^verbatim>\<open>position\<close>, \<^verbatim>\<open>radius\<close> and
  \<^verbatim>\<open>halfExtents\<close> by the constructor and by every \<^verbatim>\<open>updatePosition\<close>, so they are
  functions of those fields here (\<open>boxMin\<close>, \<open>boxMax\<close>).
\<close>

datatype collider =
    SphereCollider vec3 real
  | BoxCollider vec3 vec3

fun cposition :: "collider \<Rightarrow> vec3" where
  "cposition (SphereCollider p r) = p"
| "cposition (BoxCollider p h) = p"

fun updatePosition :: "collider \<Rightarrow> vec3 \<Rightarrow> collider" where
  "updatePosition (SphereCollider p r) q = SphereCollider q r"
| "updatePosition (BoxCollider p h) q = BoxCollider q h"

text \<open>\<^verbatim>\<open>BoxCollider.updateBox\<close>: \<^verbatim>\<open>min = position - halfExtents\<close>, \<^verbatim>\<open>max = position + halfExtents\<close>.\<close>

definition boxMin :: "vec3 \<Rightarrow> vec3 \<Rightarrow> vec3" where
  "boxMin p h = vsub p h"

definition boxMax :: "vec3 \<Rightarrow> vec3 \<Rightarrow> vec3" where
  "boxMax p h = vadd p h"

text \<open>
  The three intersection tests of three.js that \<^verbatim>\<open>intersects\<close> delegates to. They are
  library code, written here as three.js defines them: all three are closed tests
  (touching counts as intersecting), and the sphere tests compare squared distances.
  \<^item> \<^verbatim>\<open>Sphere.intersectsSphere\<close>: \<^verbatim>\<open>sphere.center.distanceToSquared(this.center) <= radiusSum * radiusSum\<close>;
  \<^item> \<^verbatim>\<open>Box3.intersectsBox\<close>: no axis on which one box ends before the other starts;
  \<^item> \<^verbatim>\<open>Box3.intersectsSphere\<close>: the sphere centre clamped to the box is within the radius.
\<close>

definition intersectsSphere :: "vec3 \<Rightarrow> real \<Rightarrow> vec3 \<Rightarrow> real \<Rightarrow> bool" where
  "intersectsSphere c1 r1 c2 r2 = (distanceToSquared c2 c1 \<le> (r1 + r2) * (r1 + r2))"

definition intersectsBox :: "vec3 \<Rightarrow> vec3 \<Rightarrow> vec3 \<Rightarrow> vec3 \<Rightarrow> bool" where
  "intersectsBox min1 max1 min2 max2 =
     (vx max2 \<ge> vx min1 \<and> vx min2 \<le> vx max1 \<and>
      vy max2 \<ge> vy min1 \<and> vy min2 \<le> vy max1 \<and>
      vz max2 \<ge> vz min1 \<and> vz min2 \<le> vz max1)"

definition boxIntersectsSphere :: "vec3 \<Rightarrow> vec3 \<Rightarrow> vec3 \<Rightarrow> real \<Rightarrow> bool" where
  "boxIntersectsSphere bmin bmax c r =
     (distanceToSquared (clampV c bmin bmax) c \<le> r * r)"

fun intersects :: "collider \<Rightarrow> collider \<Rightarrow> bool" where
  "intersects (SphereCollider p r) (SphereCollider q s) = intersectsSphere p r q s"
| "intersects (SphereCollider p r) (BoxCollider q h) =
     boxIntersectsSphere (boxMin q h) (boxMax q h) p r"
| "intersects (BoxCollider p h) (BoxCollider q k) =
     intersectsBox (boxMin p h) (boxMax p h) (boxMin q k) (boxMax q k)"
| "intersects (BoxCollider p h) (SphereCollider q s) =
     boxIntersectsSphere (boxMin p h) (boxMax p h) q s"

record collisionInfo =
  normal :: vec3
  depth :: real
  point :: vec3

text \<open>\<^verbatim>\<open>BoxCollider.projectOntoAxis\<close>, returning \<open>(min, max)\<close>.\<close>

definition projectOntoAxis :: "vec3 \<Rightarrow> vec3 \<Rightarrow> vec3 \<Rightarrow> real \<times> real" where
  "projectOntoAxis p h axis =
     (let center = dot p axis;
          radius = \<bar>vx h * vx axis\<bar> + \<bar>vy h * vy axis\<bar> + \<bar>vz h * vz axis\<bar>
      in (center - radius, center + radius))"

definition overlapOn :: "vec3 \<Rightarrow> vec3 \<Rightarrow> vec3 \<Rightarrow> vec3 \<Rightarrow> vec3 \<Rightarrow> real" where
  "overlapOn p h q k axis =
     (let proj1 = projectOntoAxis p h axis;
          proj2 = projectOntoAxis q k axis
      in min (snd proj1) (snd proj2) - max (fst proj1) (fst proj2))"

text \<open>
  The loop over the axes in the box-box case of \<^verbatim>\<open>BoxCollider.getCollisionInfo\<close>. The
  state is \<^verbatim>\<open>minDepth\<close> and \<^verbatim>\<open>minAxis\<close>; \<^verbatim>\<open>minDepth = Infinity\<close> is \<open>None\<close>, below which
  every overlap lies. \<^verbatim>\<open>minAxis.multiplyScalar(-1)\<close> flips the axis object just selected;
  the loop reads that object no more, so only \<^verbatim>\<open>minAxis\<close> sees the flip. The result is
  \<open>None\<close> at the early \<^verbatim>\<open>return null\<close>.
\<close>

fun axisLoop :: "vec3 \<Rightarrow> vec3 \<Rightarrow> vec3 \<Rightarrow> vec3 \<Rightarrow> vec3 list \<Rightarrow> real option \<Rightarrow> vec3
    \<Rightarrow> (real option \<times> vec3) option" where
  "axisLoop p h q k [] minDepth minAxis = Some (minDepth, minAxis)"
| "axisLoop p h q k (axis # axes) minDepth minAxis =
     (let overlap = overlapOn p h q k axis in
      if overlap \<le> 0 then None
      else if (case minDepth of None \<Rightarrow> True | Some d \<Rightarrow> overlap < d)
      then axisLoop p h q k axes (Some overlap)
             (if dot (vsub q p) axis < 0 then multiplyScalar axis (-1) else axis)
      else axisLoop p h q k axes minDepth minAxis)"

definition worldAxes :: "vec3 list" where
  "worldAxes = [Vector3 1 0 0, Vector3 0 1 0, Vector3 0 0 1]"

text \<open>
  The box-box case of \<^verbatim>\<open>BoxCollider.getCollisionInfo\<close>. After the three axes \<^verbatim>\<open>minDepth\<close>
  is finite; the case in which it were still \<^verbatim>\<open>Infinity\<close> cannot arise and is given \<open>None\<close>.
\<close>

definition boxBoxInfo :: "vec3 \<Rightarrow> vec3 \<Rightarrow> vec3 \<Rightarrow> vec3 \<Rightarrow> collisionInfo option" where
  "boxBoxInfo p h q k =
     (if \<not> intersects (BoxCollider p h) (BoxCollider q k) then None
      else case axisLoop p h q k worldAxes None (hd worldAxes) of
             None \<Rightarrow> None
           | Some (None, minAxis) \<Rightarrow> None
           | Some (Some minDepth, minAxis) \<Rightarrow>
               Some \<lparr>normal = minAxis, depth = minDepth,
                     point = multiplyScalar (vadd p q) 0.5\<rparr>)"

definition boxSphereInfo :: "vec3 \<Rightarrow> vec3 \<Rightarrow> vec3 \<Rightarrow> real \<Rightarrow> collisionInfo option" where
  "boxSphereInfo p h q s =
     (if \<not> intersects (BoxCollider p h) (SphereCollider q s) then None
      else let closestPoint = clampV q (boxMin p h) (boxMax p h);
               distance = distanceTo closestPoint q
           in if distance > s then None
              else Some \<lparr>normal = normalizeV (vsub q closestPoint),
                         depth = s - distance,
                         point = closestPoint\<rparr>)"

definition sphereSphereInfo :: "vec3 \<Rightarrow> real \<Rightarrow> vec3 \<Rightarrow> real \<Rightarrow> collisionInfo option" where
  "sphereSphereInfo p r q s =
     (let distance = distanceTo p q;
          minDistance = r + s
      in if distance < minDistance
         then let n = normalizeV (vsub p q)
              in Some \<lparr>normal = n, depth = minDistance - distance,
                       point = vadd (multiplyScalar n r) p\<rparr>
         else None)"

fun getCollisionInfo :: "collider \<Rightarrow> collider \<Rightarrow> collisionInfo option" where
  "getCollisionInfo (SphereCollider p r) (SphereCollider q s) = sphereSphereInfo p r q s"
| "getCollisionInfo (SphereCollider p r) (BoxCollider q k) = boxSphereInfo q k p r"
| "getCollisionInfo (BoxCollider p h) (BoxCollider q k) = boxBoxInfo p h q k"
| "getCollisionInfo (BoxCollider p h) (SphereCollider q s) = boxSphereInfo p h q s"

section \<open>Bodies (PhysicsBody.js)\<close>

text \<open>
  The class of a body decides its \<^verbatim>\<open>checkCollision\<close> method and its \<^verbatim>\<open>isPlanet\<close> flag:
  \<^verbatim>\<open>PhysicsBody\<close>, \<^verbatim>\<open>StaticBody\<close> and \<^verbatim>\<open>BoxObstacle\<close> ask the collider, \<^verbatim>\<open>GroundPlane\<close>
  (with its \<^verbatim>\<open>normal\<close> and \<^verbatim>\<open>offset\<close>) tests a plane, \<^verbatim>\<open>PlanetBody\<close> answers \<^verbatim>\<open>null\<close>.
\<close>

datatype bodyClass = PhysicsBodyClass | GroundPlaneClass vec3 real | PlanetBodyClass

text \<open>The two fields of the owning entity that the physics reads or writes.\<close>

record entity =
  isJumping :: bool
  surfaceNormal :: "vec3 option"

text \<open>
  \<^verbatim>\<open>radius\<close> and \<^verbatim>\<open>halfExtents\<close> are \<open>None\<close> where the JavaScript property is undefined.
  The constructor always installs a collider and nothing in the repository removes it,
  so the guards \<^verbatim>\<open>if (body.collider)\<close> of the source always pass. \<^verbatim>\<open>rotation\<close> is never
  read by the physics and is left out.
\<close>

record body =
  position :: vec3
  velocity :: vec3
  acceleration :: vec3
  forces :: vec3
  mass :: real
  invMass :: real
  isStatic :: bool
  restitution :: real
  friction :: real
  onGround :: bool
  usesGravity :: bool
  entity :: "entity option"
  maxFallSpeed :: real
  stabilizeThreshold :: real
  radius :: "real option"
  halfExtents :: "vec3 option"
  collider :: collider
  bodyClass :: bodyClass

text \<open>The constructor's \<^verbatim>\<open>options\<close> object; \<open>None\<close> is an absent option.\<close>

record options =
  opt_position :: "vec3 option"
  opt_velocity :: "vec3 option"
  opt_acceleration :: "vec3 option"
  opt_mass :: "real option"
  opt_isStatic :: "bool option"
  opt_restitution :: "real option"
  opt_friction :: "real option"
  opt_usesGravity :: "bool option"
  opt_entity :: "entity option"
  opt_radius :: "real option"
  opt_halfExtents :: "vec3 option"

definition orDefault :: "'a option \<Rightarrow> 'a \<Rightarrow> 'a" where
  "orDefault v d = (case v of None \<Rightarrow> d | Some a \<Rightarrow> a)"

definition PhysicsBody :: "options \<Rightarrow> body" where
  "PhysicsBody opts =
     (let pos = orDefault (opt_position opts) zeroV;
          mass0 = orDefault (opt_mass opts) 1.0;
          invMass0 = (if mass0 > 0 then 1.0 / mass0 else 0);
          static = orDefault (opt_isStatic opts) False
      in \<lparr>position = pos,
          velocity = orDefault (opt_velocity opts) zeroV,
          acceleration = orDefault (opt_acceleration opts) zeroV,
          forces = zeroV,
          mass = (if static then 0 else mass0),
          invMass = (if static then 0 else invMass0),
          isStatic = static,
          restitution = orDefault (opt_restitution opts) 0.1,
          friction = orDefault (opt_friction opts) 0.1,
          onGround = False,
          usesGravity = orDefault (opt_usesGravity opts) True,
          entity = opt_entity opts,
          maxFallSpeed = 30.0,
          stabilizeThreshold = 0.05,
          radius = (case opt_radius opts of
                      Some r \<Rightarrow> Some r
                    | None \<Rightarrow> (case opt_halfExtents opts of Some h \<Rightarrow> None | None \<Rightarrow> Some 1.0)),
          halfExtents = (case opt_radius opts of Some r \<Rightarrow> None | None \<Rightarrow> opt_halfExtents opts),
          collider = (case opt_radius opts of
                        Some r \<Rightarrow> SphereCollider pos r
                      | None \<Rightarrow> (case opt_halfExtents opts of
                                   Some h \<Rightarrow> BoxCollider pos h
                                 | None \<Rightarrow> SphereCollider pos 1.0)),
          bodyClass = PhysicsBodyClass\<rparr>)"

definition StaticBody :: "options \<Rightarrow> body" where
  "StaticBody opts =
     PhysicsBody (opts\<lparr>opt_isStatic := Some True, opt_mass := Some 0,
                        opt_usesGravity := Some False\<rparr>)"

definition GroundPlane :: "options \<Rightarrow> vec3 option \<Rightarrow> real option \<Rightarrow> body" where
  "GroundPlane opts n off =
     (StaticBody opts)\<lparr>bodyClass :=
        GroundPlaneClass (orDefault n (Vector3 0 1 0)) (orDefault off 0)\<rparr>"

definition BoxObstacle :: "options \<Rightarrow> body" where
  "BoxObstacle opts =
     StaticBody (case opt_halfExtents opts of
                   None \<Rightarrow> opts\<lparr>opt_halfExtents := Some (Vector3 1 1 1)\<rparr>
                 | Some h \<Rightarrow> opts)"

definition applyForce :: "vec3 \<Rightarrow> body \<Rightarrow> body" where
  "applyForce force b =
     (if isStatic b then b else b\<lparr>forces := vadd (forces b) force\<rparr>)"

definition applyImpulse :: "vec3 \<Rightarrow> body \<Rightarrow> body" where
  "applyImpulse impulse b =
     (if isStatic b then b
      else b\<lparr>velocity := vadd (velocity b) (multiplyScalar impulse (invMass b))\<rparr>)"

definition integrateForces :: "real \<Rightarrow> body \<Rightarrow> body" where
  "integrateForces timeStep b =
     (if isStatic b then b
      else let acc = multiplyScalar (forces b) (invMass b);
               v = vadd (velocity b) (multiplyScalar acc timeStep);
               v' = (if vy v < - maxFallSpeed b then Vector3 (vx v) (- maxFallSpeed b) (vz v) else v)
           in b\<lparr>acceleration := acc, velocity := v', forces := Vector3 0 0 0\<rparr>)"

definition stabilize :: "body \<Rightarrow> body" where
  "stabilize b =
     (let th = stabilizeThreshold b;
          v = velocity b;
          x1 = (if \<bar>vx v\<bar> < th then 0 else vx v);
          y1 = (if \<bar>vy v\<bar> < th then 0 else vy v);
          z1 = (if \<bar>vz v\<bar> < th then 0 else vz v)
      in if onGround b
         then let horizontalSpeed = sqrt (x1 * x1 + z1 * z1)
              in if horizontalSpeed < th * 2
                 then b\<lparr>velocity := Vector3 0 y1 0\<rparr>
                 else b\<lparr>velocity := Vector3 x1 y1 z1\<rparr>
         else b\<lparr>velocity := Vector3 x1 y1 z1\<rparr>)"

definition syncCollider :: "body \<Rightarrow> body" where
  "syncCollider b = b\<lparr>collider := updatePosition (collider b) (position b)\<rparr>"

definition integrateVelocity :: "real \<Rightarrow> body \<Rightarrow> body" where
  "integrateVelocity timeStep b =
     (if isStatic b then b
      else syncCollider (stabilize
             (b\<lparr>position := vadd (position b) (multiplyScalar (velocity b) timeStep)\<rparr>)))"

text \<open>\<^verbatim>\<open>body.radius || d\<close>: an undefined or zero radius gives \<^verbatim>\<open>d\<close>.\<close>

definition radiusOr :: "body \<Rightarrow> real \<Rightarrow> real" where
  "radiusOr b d = (case radius b of None \<Rightarrow> d | Some r \<Rightarrow> orElse r d)"

text \<open>The method \<^verbatim>\<open>checkCollision(other)\<close> of body \<open>a\<close>, by the class of \<open>a\<close>.\<close>

definition bodyCheckCollision :: "body \<Rightarrow> body \<Rightarrow> collisionInfo option" where
  "bodyCheckCollision a other =
     (case bodyClass a of
        PhysicsBodyClass \<Rightarrow> getCollisionInfo (collider a) (collider other)
      | GroundPlaneClass n off \<Rightarrow>
          (case radius other of
             None \<Rightarrow> None
           | Some r \<Rightarrow>
               let distance = dot (position other) n - off
               in if distance < r
                  then Some \<lparr>normal = n, depth = r - distance,
                             point = vsub (position other) (multiplyScalar n distance)\<rparr>
                  else None)
      | PlanetBodyClass \<Rightarrow> None)"

section \<open>The planet field (PlanetBody.js)\<close>

text \<open>
  A \<^verbatim>\<open>PlanetBody\<close> is a static body (an entry of the world's static list, of class
  \<open>PlanetBodyClass\<close>) and the radial gravity source that the world keeps in
  \<^verbatim>\<open>planetBody\<close>. The physics reads only the fields below from the latter; none of them
  is written after construction.
\<close>

record planet =
  center :: vec3
  planetRadius :: real
  gravityStrength :: real
  surfaceOffset :: real
  snapForce :: real
  planetGroundThreshold :: real
  epsilon :: real
  minSafeDistance :: real

definition PlanetBody :: "options \<Rightarrow> real option \<Rightarrow> planet" where
  "PlanetBody opts gravityStrengthOpt =
     (let r = orElse (orDefault (opt_radius opts) 0) 20
      in \<lparr>center = orDefault (opt_position opts) (Vector3 0 0 0),
          planetRadius = r,
          gravityStrength = orElse (orDefault gravityStrengthOpt 0) 25,
          surfaceOffset = 0.2,
          snapForce = 0.5,
          planetGroundThreshold = 0.3,
          epsilon = 1 / 1000000,
          minSafeDistance = r * 0.9\<rparr>)"

text \<open>The same object as an entry of the static list.\<close>

definition PlanetBodyEntry :: "options \<Rightarrow> body" where
  "PlanetBodyEntry opts =
     (StaticBody opts)\<lparr>radius := Some (orElse (orDefault (opt_radius opts) 0) 20),
                        bodyClass := PlanetBodyClass\<rparr>"

definition isPlanet :: "body \<Rightarrow> bool" where
  "isPlanet b = (bodyClass b = PlanetBodyClass)"

definition applyGravitationalForce :: "planet \<Rightarrow> body \<Rightarrow> body" where
  "applyGravitationalForce p b =
     (if \<not> usesGravity b then b
      else let toCenter = vsub (center p) (position b);
               distanceSq = max (lengthSq toCenter) (epsilon p);
               distance = sqrt distanceSq;
               gravityDir = divideScalar toCenter distance;
               force = multiplyScalar gravityDir (mass b * gravityStrength p)
           in applyForce force b)"

text \<open>
  The safety check of \<^verbatim>\<open>handlePlanetSurfaceInteraction\<close>. three.js vectors are mutated
  in place: \<^verbatim>\<open>fromCenter.normalize().multiplyScalar(d)\<close> leaves \<^verbatim>\<open>fromCenter\<close> scaled to
  length \<^verbatim>\<open>d\<close>, and \<^verbatim>\<open>const radialDir = fromCenter.normalize()\<close> normalises the same object
  once more. The function returns the corrected body and the final \<^verbatim>\<open>fromCenter\<close>.
\<close>

definition surfaceSafety :: "planet \<Rightarrow> vec3 \<Rightarrow> body \<Rightarrow> body \<times> vec3" where
  "surfaceSafety p fromCenter b =
     (let scaled = multiplyScalar (normalizeV fromCenter) (minSafeDistance p + radiusOr b 0.5);
          safePos = vadd (center p) scaled;
          b1 = syncCollider (b\<lparr>position := safePos\<rparr>);
          radialDir = normalizeV scaled;
          normalVel = dot (velocity b1) radialDir;
          b2 = (if normalVel < 0
                then b1\<lparr>velocity := vsub (velocity b1) (multiplyScalar radialDir normalVel)\<rparr>
                else b1)
      in (b2, radialDir))"

definition setSurfaceNormal :: "vec3 \<Rightarrow> body \<Rightarrow> body" where
  "setSurfaceNormal n b =
     (case entity b of
        None \<Rightarrow> b
      | Some e \<Rightarrow> (case surfaceNormal e of
                     None \<Rightarrow> b
                   | Some old \<Rightarrow> b\<lparr>entity := Some (e\<lparr>surfaceNormal := Some n\<rparr>)\<rparr>))"

definition entityJumping :: "body \<Rightarrow> bool" where
  "entityJumping b = (case entity b of None \<Rightarrow> False | Some e \<Rightarrow> isJumping e)"

definition groundState :: "vec3 \<Rightarrow> body \<Rightarrow> body" where
  "groundState radialDir b =
     (if onGround b
      then let normalVel = dot (velocity b) radialDir;
               v1 = (if normalVel < 0
                     then vsub (velocity b) (multiplyScalar radialDir normalVel)
                     else velocity b);
               v2 = multiplyScalar v1 0.98;
               dotWithSouth = dot radialDir (Vector3 0 (-1) 0);
               v3 = (if dotWithSouth > 0.95 then multiplyScalar v2 0.95 else v2)
           in b\<lparr>velocity := v3\<rparr>
      else b)"

definition handlePlanetSurfaceInteraction :: "planet \<Rightarrow> real \<Rightarrow> body \<Rightarrow> body" where
  "handlePlanetSurfaceInteraction p deltaTime b =
     (if \<not> usesGravity b then b
      else let fromCenter0 = vsub (position b) (center p);
               distance = max (vlength fromCenter0) (epsilon p);
               (b1, fromCenter) = (if distance < minSafeDistance p
                                   then surfaceSafety p fromCenter0 b
                                   else (b, fromCenter0));
               radialDir = divideScalar fromCenter distance;
               b2 = setSurfaceNormal radialDir b1;
               bodyRadius = radiusOr b2 0.5;
               idealDistance = planetRadius p + surfaceOffset p + bodyRadius;
               distanceError = idealDistance - distance;
               b3 = b2\<lparr>onGround := (\<bar>distanceError\<bar> < planetGroundThreshold p)\<rparr>;
               b4 = (if distanceError > 0.01
                     then let pushFactor = (if entityJumping b3 then 0.1 else snapForce p)
                          in applyForce
                               (multiplyScalar radialDir (distanceError * pushFactor * mass b3)) b3
                     else b3)
           in groundState radialDir b4)"

section \<open>The world (PhysicsWorld.js)\<close>

text \<open>
  The entries of the two lists are distinct objects (a body is registered once), so a
  loop that mutates each body is a \<open>map\<close> and the collision pass updates the lists by
  index. \<^verbatim>\<open>groundRayDistance\<close> and \<^verbatim>\<open>debugDraw\<close> are never read and are left out;
  \<^verbatim>\<open>maxSubSteps\<close> holds the whole number the constructor stores.
\<close>

record world =
  bodies :: "body list"
  staticBodies :: "body list"
  gravity :: vec3
  accumulator :: real
  fixedTimeStep :: real
  groundThreshold :: real
  planetBody :: "planet option"
  maxSubSteps :: nat

text \<open>The constructor, from \<^verbatim>\<open>engine.config.gravity\<close> and \<^verbatim>\<open>engine.config.physicsFPS\<close>.\<close>

definition PhysicsWorld :: "real \<Rightarrow> real \<Rightarrow> world" where
  "PhysicsWorld configGravity physicsFPS =
     \<lparr>bodies = [], staticBodies = [],
      gravity = Vector3 0 configGravity 0,
      accumulator = 0,
      fixedTimeStep = 1 / physicsFPS,
      groundThreshold = 0.15,
      planetBody = None,
      maxSubSteps = 3\<rparr>"

definition addBody :: "body \<Rightarrow> world \<Rightarrow> world" where
  "addBody b w =
     (if isStatic b then w\<lparr>staticBodies := staticBodies w @ [b]\<rparr>
      else w\<lparr>bodies := bodies w @ [b]\<rparr>)"

text \<open>\<^verbatim>\<open>clear()\<close>; the argument is the value of \<^verbatim>\<open>this.engine.player?.physicsBody\<close>.\<close>

definition clear :: "body option \<Rightarrow> world \<Rightarrow> world" where
  "clear playerBody w =
     (case playerBody of
        Some pb \<Rightarrow> w\<lparr>bodies := (if isStatic pb then [] else [pb]),
                      staticBodies := (if isStatic pb then [pb] else [])\<rparr>
      | None \<Rightarrow> w\<lparr>bodies := [], staticBodies := []\<rparr>)"

definition setPlanetBody :: "planet \<Rightarrow> world \<Rightarrow> world" where
  "setPlanetBody p w = w\<lparr>planetBody := Some p\<rparr>"

text \<open>Step 1 of \<^verbatim>\<open>fixedUpdate\<close> for one body: the emergency correction.\<close>

definition emergencyCorrection :: "planet \<Rightarrow> body \<Rightarrow> body" where
  "emergencyCorrection p b =
     (let distVector = vsub (position b) (center p);
          distance = vlength distVector;
          minSafe = planetRadius p * 0.9
      in if distance < minSafe
         then syncCollider
                (b\<lparr>position := vadd (center p)
                     (multiplyScalar (normalizeV distVector) (minSafe + radiusOr b 0.5))\<rparr>)
         else b)"

text \<open>Step 3 of \<^verbatim>\<open>fixedUpdate\<close> for one body: gravity, then force integration.\<close>

definition gravityStep :: "world \<Rightarrow> real \<Rightarrow> body \<Rightarrow> body" where
  "gravityStep w timeStep b =
     integrateForces timeStep
       (if usesGravity b
        then (case planetBody w of
                Some p \<Rightarrow> applyGravitationalForce p b
              | None \<Rightarrow> applyForce (multiplyScalar (gravity w) (mass b)) b)
        else b)"

text \<open>
  \<^verbatim>\<open>checkCollision(bodyA, bodyB)\<close> of the world. Both bodies have a collider, so the
  fallback sphere test of the source is never reached.
\<close>

definition checkCollision :: "body \<Rightarrow> body \<Rightarrow> bool" where
  "checkCollision a b = intersects (collider a) (collider b)"

text \<open>
  \<^verbatim>\<open>resolveCollision\<close>, first branch: the pair has collision info \<^verbatim>\<open>{normal, depth}\<close>.
  The result is the pair of bodies after the call.
\<close>

definition resolveWithInfo :: "vec3 \<Rightarrow> real \<Rightarrow> body \<Rightarrow> body \<Rightarrow> body \<times> body" where
  "resolveWithInfo n d a b =
     (let relativeVelocity = vsub (velocity a) (velocity b);
          velAlongNormal = dot relativeVelocity n
      in if velAlongNormal > 0 then (a, b)
         else let e = min (orElse (restitution a) 0) (orElse (restitution b) 0);
                  j0 = - (1 + e) * velAlongNormal;
                  invMassA = orElse (invMass a) 0;
                  invMassB = orElse (invMass b) 0;
                  invMassSum = invMassA + invMassB
              in if invMassSum = 0 then (a, b)
                 else let j = j0 / invMassSum;
                          impulse = multiplyScalar n j;
                          a1 = (if invMassA > 0
                                then a\<lparr>velocity := vadd (velocity a) (multiplyScalar impulse invMassA)\<rparr>
                                else a);
                          b1 = (if invMassB > 0
                                then b\<lparr>velocity := vsub (velocity b) (multiplyScalar impulse invMassB)\<rparr>
                                else b)
                      in if d > 0
                         then let gentleFactor = 0.1;
                                  correction = multiplyScalar n (d * gentleFactor);
                                  a2 = (if invMassA > 0
                                        then syncCollider (a1\<lparr>position := vadd (position a1)
                                               (multiplyScalar correction (invMassA / invMassSum))\<rparr>)
                                        else a1);
                                  b2 = (if invMassB > 0
                                        then syncCollider (b1\<lparr>position := vsub (position b1)
                                               (multiplyScalar correction (invMassB / invMassSum))\<rparr>)
                                        else b1)
                              in (a2, b2)
                         else (a1, b1))"

text \<open>\<^verbatim>\<open>resolveCollision\<close>, second branch: no collision info, spheres assumed.\<close>

definition resolveFallback :: "body \<Rightarrow> body \<Rightarrow> body \<times> body" where
  "resolveFallback a b =
     (let n = normalizeV (vsub (position a) (position b));
          relativeVelocity = vsub (velocity a) (velocity b);
          velAlongNormal = dot relativeVelocity n
      in if velAlongNormal > 0 then (a, b)
         else let e = min (orElse (restitution a) 0.3) (orElse (restitution b) 0.3);
                  j = - (1 + e) * velAlongNormal;
                  invMassSum = orElse (invMass a) 0 + orElse (invMass b) 0
              in if invMassSum = 0 then (a, b)
                 else let impulse = j / invMassSum;
                          impulseVec = multiplyScalar n impulse;
                          a1 = (if invMass a > 0
                                then a\<lparr>velocity := vadd (velocity a) (multiplyScalar impulseVec (invMass a))\<rparr>
                                else a);
                          b1 = (if invMass b > 0
                                then b\<lparr>velocity := vsub (velocity b) (multiplyScalar impulseVec (invMass b))\<rparr>
                                else b);
                          minDist = radiusOr a 0.5 + radiusOr b 0.5;
                          dist = distanceTo (position a) (position b);
                          correction = max (minDist - dist) 0 * 0.3
                      in if correction > 0
                         then let correctionVec = multiplyScalar n correction;
                                  corrA = multiplyScalar correctionVec (invMass a / invMassSum);
                                  corrB = multiplyScalar correctionVec (invMass b / invMassSum);
                                  a2 = (if invMass a > 0
                                        then syncCollider (a1\<lparr>position := vadd (position a1) corrA\<rparr>)
                                        else a1);
                                  b2 = (if invMass b > 0
                                        then syncCollider (b1\<lparr>position := vsub (position b1) corrB\<rparr>)
                                        else b1)
                              in (a2, b2)
                         else (a1, b1))"

text \<open>
  The collision info of the pair: that of \<^verbatim>\<open>bodyA.checkCollision(bodyB)\<close>, else that of
  \<^verbatim>\<open>bodyB.checkCollision(bodyA)\<close> with its normal inverted.
\<close>

definition pairInfo :: "body \<Rightarrow> body \<Rightarrow> collisionInfo option" where
  "pairInfo a b =
     (case bodyCheckCollision a b of
        Some i \<Rightarrow> Some i
      | None \<Rightarrow> (case bodyCheckCollision b a of
                   Some i \<Rightarrow> Some (i\<lparr>normal := multiplyScalar (normal i) (-1)\<rparr>)
                 | None \<Rightarrow> None))"

definition resolveCollision :: "body \<Rightarrow> body \<Rightarrow> body \<times> body" where
  "resolveCollision a b =
     (case pairInfo a b of
        Some i \<Rightarrow> resolveWithInfo (normal i) (depth i) a b
      | None \<Rightarrow> resolveFallback a b)"

text \<open>One pair of \<^verbatim>\<open>detectCollisions\<close>: resolve if the colliders intersect.\<close>

definition collidePair :: "body \<Rightarrow> body \<Rightarrow> body \<times> body" where
  "collidePair a b = (if checkCollision a b then resolveCollision a b else (a, b))"

text \<open>The inner loop over the later dynamic bodies \<open>j = i + 1, ...\<close>.\<close>

definition dynamicLoop :: "nat \<Rightarrow> body list \<Rightarrow> body list" where
  "dynamicLoop i bs =
     fold (\<lambda>j cur. case collidePair (cur ! i) (cur ! j) of
                      (a, b) \<Rightarrow> (cur[i := a])[j := b])
          [Suc i..<length bs] bs"

text \<open>The inner loop over the static bodies, planets skipped.\<close>

definition staticLoop :: "nat \<Rightarrow> body list \<times> body list \<Rightarrow> body list \<times> body list" where
  "staticLoop i st =
     fold (\<lambda>k (cur, ss). if isPlanet (ss ! k) then (cur, ss)
                          else case collidePair (cur ! i) (ss ! k) of
                                 (a, s) \<Rightarrow> (cur[i := a], ss[k := s]))
          [0..<length (snd st)] st"

definition detectCollisions :: "body list \<times> body list \<Rightarrow> body list \<times> body list" where
  "detectCollisions st =
     fold (\<lambda>i (cur, ss). staticLoop i (dynamicLoop i cur, ss))
          [0..<length (fst st)] st"

definition checkWorldBounds :: "world \<Rightarrow> body \<Rightarrow> body" where
  "checkWorldBounds w b =
     (if planetBody w \<noteq> None then b
      else if vy (position b) < groundThreshold w
      then let b1 = (if vy (position b) < 0
                     then b\<lparr>position := Vector3 (vx (position b)) 0.05 (vz (position b))\<rparr>
                     else b)
           in if vy (velocity b1) \<le> 0.1
              then let b2 = b1\<lparr>onGround := True\<rparr>
                   in if vy (velocity b2) < 0
                      then b2\<lparr>velocity := Vector3 (vx (velocity b2)) 0 (vz (velocity b2))\<rparr>
                      else b2
              else b1
      else b\<lparr>onGround := False\<rparr>)"

text \<open>\<^verbatim>\<open>fixedUpdate(timeStep)\<close>: the six steps in the order of the source.\<close>

definition fixedUpdate :: "real \<Rightarrow> world \<Rightarrow> world" where
  "fixedUpdate timeStep w =
     (let bs1 = (case planetBody w of
                   Some p \<Rightarrow> map (emergencyCorrection p) (bodies w)
                 | None \<Rightarrow> bodies w);
          bs2 = map (integrateVelocity timeStep) bs1;
          bs3 = map (gravityStep w timeStep) bs2;
          bs4 = (case planetBody w of
                   Some p \<Rightarrow> map (handlePlanetSurfaceInteraction p timeStep) bs3
                 | None \<Rightarrow> bs3);
          st5 = detectCollisions (bs4, staticBodies w);
          bs6 = (case planetBody w of
                   None \<Rightarrow> map (checkWorldBounds w) (fst st5)
                 | Some p \<Rightarrow> fst st5)
      in w\<lparr>bodies := bs6, staticBodies := snd st5\<rparr>)"

text \<open>
  The \<^verbatim>\<open>while\<close> loop of \<^verbatim>\<open>update\<close>, with the counter \<^verbatim>\<open>substep\<close>; it returns the counter
  and the world at the loop's exit.
\<close>

function subStepLoop :: "nat \<Rightarrow> world \<Rightarrow> nat \<times> world" where
  "subStepLoop substep w =
     (if accumulator w \<ge> fixedTimeStep w \<and> substep < maxSubSteps w
      then let w' = fixedUpdate (fixedTimeStep w) w
           in subStepLoop (Suc substep) (w'\<lparr>accumulator := accumulator w' - fixedTimeStep w'\<rparr>)
      else (substep, w))"
  by pat_completeness auto
termination
  by (relation "measure (\<lambda>(substep, w). maxSubSteps w - substep)")
     (auto simp: fixedUpdate_def Let_def)

declare subStepLoop.simps [simp del]

definition update :: "real \<Rightarrow> world \<Rightarrow> world" where
  "update deltaTime w =
     (let cappedDelta = min deltaTime 0.1;
          w1 = w\<lparr>accumulator := accumulator w + cappedDelta\<rparr>;
          (substep, w2) = subStepLoop 0 w1
      in if substep \<ge> maxSubSteps w2 \<and> accumulator w2 > 0
         then (fixedUpdate (accumulator w2) w2)\<lparr>accumulator := 0\<rparr>
         else w2)"

section \<open>Auxiliary notions for the properties\<close>

text \<open>The options object \<^verbatim>\<open>{}\<close>.\<close>

definition noOptions :: options where
  "noOptions = \<lparr>opt_position = None, opt_velocity = None, opt_acceleration = None,
      opt_mass = None, opt_isStatic = None, opt_restitution = None, opt_friction = None,
      opt_usesGravity = None, opt_entity = None, opt_radius = None, opt_halfExtents = None\<rparr>"

text \<open>The mass properties of a body: \<^verbatim>\<open>mass\<close>, \<^verbatim>\<open>invMass\<close> and \<^verbatim>\<open>isStatic\<close>.\<close>

definition massProps :: "body \<Rightarrow> real \<times> real \<times> bool" where
  "massProps b = (mass b, invMass b, isStatic b)"

text \<open>A flat world as the engine configures it, and two bodies near its ground.\<close>

definition flatWorld :: world where
  "flatWorld = PhysicsWorld (-20) 120"

definition risingBody :: body where
  "risingBody = PhysicsBody (noOptions\<lparr>opt_position := Some (Vector3 0 0.1 0),
                                         opt_velocity := Some (Vector3 0 5 0)\<rparr>)"

definition sunkBody :: body where
  "sunkBody = PhysicsBody (noOptions\<lparr>opt_position := Some (Vector3 0 (-1) 0),
                                       opt_velocity := Some (Vector3 0 (-2) 0)\<rparr>)"

text \<open>Two unit spheres whose centres are 1.5 apart on the X axis; the first moves towards the second.\<close>

definition unitSphereA :: body where
  "unitSphereA = PhysicsBody (noOptions\<lparr>opt_velocity := Some (Vector3 1 0 0),
                                          opt_radius := Some 1\<rparr>)"

definition unitSphereB :: body where
  "unitSphereB = PhysicsBody (noOptions\<lparr>opt_position := Some (Vector3 1.5 0 0),
                                          opt_radius := Some 1\<rparr>)"

text \<open>
  The quantities of claim C3, in its words: the relative velocity of A with respect to B
  along the normal, and the scalar impulse \<^verbatim>\<open>j = -(1 + e) * velAlongNormal / (invMassA + invMassB)\<close>
  with \<^verbatim>\<open>e = min(restitutionA, restitutionB)\<close>.
\<close>

definition velAlongNormal :: "body \<Rightarrow> body \<Rightarrow> vec3 \<Rightarrow> real" where
  "velAlongNormal a b n = dot (vsub (velocity a) (velocity b)) n"

definition impulseScalar :: "body \<Rightarrow> body \<Rightarrow> vec3 \<Rightarrow> real" where
  "impulseScalar a b n =
     - (1 + min (restitution a) (restitution b)) * velAlongNormal a b n
       / (invMass a + invMass b)"

text \<open>
  The orientation of claim C7, in its words: the axis, turned round when the displacement
  from the centre of A to the centre of B is negative along it. \<open>nonNegative\<close> says that
  a box has no negative half-extent.
\<close>

definition orientAxis :: "vec3 \<Rightarrow> vec3 \<Rightarrow> vec3 \<Rightarrow> vec3" where
  "orientAxis p q axis = (if dot (vsub q p) axis < 0 then multiplyScalar axis (-1) else axis)"

definition nonNegative :: "vec3 \<Rightarrow> bool" where
  "nonNegative h = (0 \<le> vx h \<and> 0 \<le> vy h \<and> 0 \<le> vz h)"

text \<open>
  The quantities of claim C2. \<open>fullSteps\<close> is the counter \<^verbatim>\<open>substep\<close> at the exit of the
  loop of \<^verbatim>\<open>update\<close>, \<open>remainder\<close> the accumulator there, \<open>finalStep\<close> the condition of the
  final partial step, and \<open>simulatedTime\<close> the sum of the time steps that the call passes
  to \<^verbatim>\<open>fixedUpdate\<close>.
\<close>

definition fullSteps :: "real \<Rightarrow> world \<Rightarrow> nat" where
  "fullSteps dt w = fst (subStepLoop 0 (w\<lparr>accumulator := accumulator w + min dt 0.1\<rparr>))"

definition remainder :: "real \<Rightarrow> world \<Rightarrow> real" where
  "remainder dt w =
     accumulator w + min dt 0.1 - real (fullSteps dt w) * fixedTimeStep w"

definition finalStep :: "real \<Rightarrow> world \<Rightarrow> bool" where
  "finalStep dt w = (fullSteps dt w \<ge> maxSubSteps w \<and> remainder dt w > 0)"

definition simulatedTime :: "real \<Rightarrow> world \<Rightarrow> real" where
  "simulatedTime dt w =
     real (fullSteps dt w) * fixedTimeStep w + (if finalStep dt w then remainder dt w else 0)"

text \<open>
  The invariant of the static list that claim C4 is about: every entry is static and has
  inverse mass zero. \<open>obstacleWorld\<close> is the flat world with a sunk sphere and a box
  obstacle at the origin registered.
\<close>

definition staticInvariant :: "world \<Rightarrow> bool" where
  "staticInvariant w = (\<forall>s \<in> set (staticBodies w). isStatic s \<and> invMass s = 0)"

definition obstacleWorld :: world where
  "obstacleWorld = addBody (BoxObstacle noOptions) (addBody sunkBody flatWorld)"

text \<open>The flat world with the sunk sphere registered.\<close>

definition sunkWorld :: world where
  "sunkWorld = addBody sunkBody flatWorld"

text \<open>
  The quantities of claim C1. \<open>radialVelocity\<close> is the component of a body's velocity along
  the direction from the planet's centre to the body; \<open>inwardSpeed\<close> is its inward
  (toward-centre) part, zero when the body does not approach the centre. \<open>planetPhases\<close>
  is what steps 1 to 4 of \<^verbatim>\<open>fixedUpdate\<close> do to one body when a planet field is set.
\<close>

definition radialVelocity :: "planet \<Rightarrow> body \<Rightarrow> real" where
  "radialVelocity p b = dot (velocity b) (normalizeV (vsub (position b) (center p)))"

definition inwardSpeed :: "planet \<Rightarrow> body \<Rightarrow> real" where
  "inwardSpeed p b = max 0 (- radialVelocity p b)"

definition planetPhases :: "planet \<Rightarrow> real \<Rightarrow> body \<Rightarrow> body" where
  "planetPhases p t b =
     handlePlanetSurfaceInteraction p t
       (integrateForces t
          (applyGravitationalForce p
             (integrateVelocity t (emergencyCorrection p b))))"

text \<open>
  A planet of radius 20 at the origin (so \<^verbatim>\<open>minSafeDistance\<close> is 18), as a gravity source
  and as an entry of the static list; a resting unit sphere 17 from the centre; and the
  world that holds them.
\<close>

definition planet20 :: planet where
  "planet20 = PlanetBody (noOptions\<lparr>opt_radius := Some 20\<rparr>) None"

definition planetEntry20 :: body where
  "planetEntry20 = PlanetBodyEntry (noOptions\<lparr>opt_radius := Some 20\<rparr>)"

definition deepBody :: body where
  "deepBody = PhysicsBody (noOptions\<lparr>opt_position := Some (Vector3 17 0 0)\<rparr>)"

definition planetWorld :: world where
  "planetWorld =
     setPlanetBody planet20 (addBody deepBody (addBody planetEntry20 (PhysicsWorld (-20) 120)))"

text \<open>
  Three unit boxes (half-extents (1,1,1)) of mass 1: one resting with its centre at
  (1.5, 0, 0), and two at the origin, overlapping it by 0.5 along X, of which one moves
  towards the resting box and one away from it.
\<close>

definition restingBox :: body where
  "restingBox = PhysicsBody (noOptions\<lparr>opt_position := Some (Vector3 1.5 0 0),
                                         opt_halfExtents := Some (Vector3 1 1 1)\<rparr>)"

definition approachingBox :: body where
  "approachingBox = PhysicsBody (noOptions\<lparr>opt_velocity := Some (Vector3 1 0 0),
                                             opt_halfExtents := Some (Vector3 1 1 1)\<rparr>)"

definition recedingBox :: body where
  "recedingBox = PhysicsBody (noOptions\<lparr>opt_velocity := Some (Vector3 (-1) 0 0),
                                          opt_halfExtents := Some (Vector3 1 1 1)\<rparr>)"

section \<open>Properties\<close>

lemma fixedUpdate_frame [simp]:
  "maxSubSteps (fixedUpdate t w) = maxSubSteps w"
  "fixedTimeStep (fixedUpdate t w) = fixedTimeStep w"
  "accumulator (fixedUpdate t w) = accumulator w"
  "planetBody (fixedUpdate t w) = planetBody w"
  "gravity (fixedUpdate t w) = gravity w"
  "groundThreshold (fixedUpdate t w) = groundThreshold w"
  by (simp_all add: fixedUpdate_def Let_def)

subsection \<open>Mass properties are never written\<close>

lemma PhysicsBody_invMass:
  "invMass (PhysicsBody opts) = 0 \<longleftrightarrow> mass (PhysicsBody opts) \<le> 0"
  "isStatic (PhysicsBody opts) \<Longrightarrow> invMass (PhysicsBody opts) = 0"
  "0 \<le> invMass (PhysicsBody opts)"
  by (auto simp: PhysicsBody_def Let_def)

lemma massProps_ops:
  "massProps (applyForce f b) = massProps b"
  "massProps (applyImpulse f b) = massProps b"
  "massProps (integrateForces t b) = massProps b"
  "massProps (stabilize b) = massProps b"
  "massProps (syncCollider b) = massProps b"
  "massProps (integrateVelocity t b) = massProps b"
  "massProps (emergencyCorrection p b) = massProps b"
  "massProps (applyGravitationalForce p b) = massProps b"
  "massProps (checkWorldBounds w b) = massProps b"
  by (simp_all add: massProps_def applyForce_def applyImpulse_def integrateForces_def
      stabilize_def syncCollider_def integrateVelocity_def emergencyCorrection_def
      applyGravitationalForce_def checkWorldBounds_def Let_def)

lemma massProps_parts [simp]:
  "massProps (fst (surfaceSafety p f b)) = massProps b"
  "massProps (setSurfaceNormal n b) = massProps b"
  "massProps (groundState r b) = massProps b"
  by (simp_all add: massProps_def surfaceSafety_def setSurfaceNormal_def groundState_def
      syncCollider_def Let_def split: option.splits)

lemma massProps_onGround [simp]: "massProps (b\<lparr>onGround := g\<rparr>) = massProps b"
  by (simp add: massProps_def)

lemma massProps_surface:
  "massProps (handlePlanetSurfaceInteraction p t b) = massProps b"
  by (simp add: handlePlanetSurfaceInteraction_def massProps_ops Let_def split_beta)

lemma massProps_upd [simp]:
  "massProps (b\<lparr>velocity := v\<rparr>) = massProps b"
  "massProps (b\<lparr>position := q\<rparr>) = massProps b"
  by (simp_all add: massProps_def)

lemma massProps_resolve:
  "massProps (fst (resolveWithInfo n d a b)) = massProps a"
  "massProps (snd (resolveWithInfo n d a b)) = massProps b"
  "massProps (fst (resolveFallback a b)) = massProps a"
  "massProps (snd (resolveFallback a b)) = massProps b"
  by (simp_all add: resolveWithInfo_def resolveFallback_def massProps_ops Let_def)


lemma map_update_same: "(map f xs)[i := f (xs ! i)] = map f xs"
  by (metis list_update_id map_update)

lemma map_map_frame: "(\<And>x. f (g x) = f x) \<Longrightarrow> map f (map g xs) = map f xs"
  by simp

lemma dynamicLoop_map:
  assumes "\<And>a b. f (fst (collidePair a b)) = f a" "\<And>a b. f (snd (collidePair a b)) = f b"
  shows "map f (dynamicLoop i bs) = map f bs"
proof -
  have "map f (fold (\<lambda>j cur. case collidePair (cur ! i) (cur ! j) of
                      (a, b) \<Rightarrow> (cur[i := a])[j := b]) js cur) = map f cur" for js cur
  proof (induction js arbitrary: cur)
    case Nil
    show ?case by simp
  next
    case (Cons j js)
    obtain a b where ab: "collidePair (cur ! i) (cur ! j) = (a, b)" by (cases "collidePair (cur ! i) (cur ! j)")
    have fa: "f a = f (cur ! i)" using assms(1)[of "cur ! i" "cur ! j"] ab by simp
    have fb: "f b = f (cur ! j)" using assms(2)[of "cur ! i" "cur ! j"] ab by simp
    have "map f ((cur[i := a])[j := b]) = map f cur"
      by (simp add: map_update fa fb map_update_same)
    then show ?case using Cons.IH[of "(cur[i := a])[j := b]"] ab by simp
  qed
  then show ?thesis by (simp add: dynamicLoop_def)
qed

lemma staticLoop_map:
  assumes "\<And>a b. f (fst (collidePair a b)) = f a" "\<And>a b. g (snd (collidePair a b)) = g b"
  shows "map f (fst (staticLoop i st)) = map f (fst st) \<and> map g (snd (staticLoop i st)) = map g (snd st)"
proof -
  have "map f (fst (fold (\<lambda>k (cur, ss). if isPlanet (ss ! k) then (cur, ss)
                          else case collidePair (cur ! i) (ss ! k) of
                                 (a, s) \<Rightarrow> (cur[i := a], ss[k := s])) ks st)) = map f (fst st)
      \<and> map g (snd (fold (\<lambda>k (cur, ss). if isPlanet (ss ! k) then (cur, ss)
                          else case collidePair (cur ! i) (ss ! k) of
                                 (a, s) \<Rightarrow> (cur[i := a], ss[k := s])) ks st)) = map g (snd st)" for ks st
  proof (induction ks arbitrary: st)
    case Nil
    show ?case by simp
  next
    case (Cons k ks)
    obtain cur ss where st: "st = (cur, ss)" by (cases st)
    obtain a s where ab: "collidePair (cur ! i) (ss ! k) = (a, s)" by (cases "collidePair (cur ! i) (ss ! k)")
    have fa: "f a = f (cur ! i)" using assms(1)[of "cur ! i" "ss ! k"] ab by simp
    have gs: "g s = g (ss ! k)" using assms(2)[of "cur ! i" "ss ! k"] ab by simp
    have 1: "map f (cur[i := a]) = map f cur" by (simp add: map_update fa map_update_same)
    have 2: "map g (ss[k := s]) = map g ss" by (simp add: map_update gs map_update_same)
    show ?case
    proof (cases "isPlanet (ss ! k)")
      case True
      then show ?thesis using Cons.IH[of "(cur, ss)"] st by simp
    next
      case False
      then show ?thesis using Cons.IH[of "(cur[i := a], ss[k := s])"] st ab 1 2 by simp
    qed
  qed
  then show ?thesis by (simp add: staticLoop_def)
qed

lemma detectCollisions_map:
  assumes "\<And>a b. f (fst (collidePair a b)) = f a" "\<And>a b. f (snd (collidePair a b)) = f b"
     "\<And>a b. g (snd (collidePair a b)) = g b"
  shows "map f (fst (detectCollisions st)) = map f (fst st) \<and> map g (snd (detectCollisions st)) = map g (snd st)"
proof -
  have "map f (fst (fold (\<lambda>i (cur, ss). staticLoop i (dynamicLoop i cur, ss)) is st)) = map f (fst st)
      \<and> map g (snd (fold (\<lambda>i (cur, ss). staticLoop i (dynamicLoop i cur, ss)) is st)) = map g (snd st)" for "is" st
  proof (induction "is" arbitrary: st)
    case Nil
    show ?case by simp
  next
    case (Cons i "is")
    obtain cur ss where st: "st = (cur, ss)" by (cases st)
    have d: "map f (dynamicLoop i cur) = map f cur" by (rule dynamicLoop_map[OF assms(1,2)])
    have s: "map f (fst (staticLoop i (dynamicLoop i cur, ss))) = map f (dynamicLoop i cur)
       \<and> map g (snd (staticLoop i (dynamicLoop i cur, ss))) = map g ss"
      using staticLoop_map[of f g i "(dynamicLoop i cur, ss)", OF assms(1) assms(3)] by simp
    show ?case using Cons.IH[of "staticLoop i (dynamicLoop i cur, ss)"] st d s by simp
  qed
  then show ?thesis by (simp add: detectCollisions_def)
qed

lemma massProps_collidePair:
  "massProps (fst (collidePair a b)) = massProps a"
  "massProps (snd (collidePair a b)) = massProps b"
  by (simp_all add: collidePair_def resolveCollision_def massProps_resolve split: option.splits)

lemma massProps_gravityStep: "massProps (gravityStep w t b) = massProps b"
  by (simp add: gravityStep_def massProps_ops split: option.splits)

lemma massProps_fixedUpdate:
  "map massProps (bodies (fixedUpdate t w)) = map massProps (bodies w)"
  "map massProps (staticBodies (fixedUpdate t w)) = map massProps (staticBodies w)"
  using detectCollisions_map[of massProps massProps, OF massProps_collidePair(1) massProps_collidePair(2) massProps_collidePair(2)]
  by (simp_all add: fixedUpdate_def Let_def massProps_ops massProps_surface massProps_gravityStep
      map_map_frame comp_def split: option.splits)


lemma subStepLoop_step:
  "accumulator w \<ge> fixedTimeStep w \<Longrightarrow> substep < maxSubSteps w \<Longrightarrow>
   subStepLoop substep w =
     subStepLoop (Suc substep)
       ((fixedUpdate (fixedTimeStep w) w)\<lparr>accumulator := accumulator w - fixedTimeStep w\<rparr>)"
  by (subst subStepLoop.simps) (simp add: Let_def)

lemma subStepLoop_stop:
  "\<not> (accumulator w \<ge> fixedTimeStep w \<and> substep < maxSubSteps w) \<Longrightarrow>
   subStepLoop substep w = (substep, w)"
  by (subst subStepLoop.simps) auto

lemma subStepLoop_invariant:
  assumes "\<And>t w. Q w \<Longrightarrow> Q (fixedUpdate t w)" "\<And>a w. Q w \<Longrightarrow> Q (w\<lparr>accumulator := a\<rparr>)"
  shows "Q w \<Longrightarrow> Q (snd (subStepLoop n w))"
proof (induction n w rule: subStepLoop.induct)
  case (1 substep w)
  show ?case
  proof (cases "accumulator w \<ge> fixedTimeStep w \<and> substep < maxSubSteps w")
    case True
    have "Q ((fixedUpdate (fixedTimeStep w) w)\<lparr>accumulator := accumulator w - fixedTimeStep w\<rparr>)"
      using assms "1.prems" by blast
    then show ?thesis using "1.IH" True by (simp add: subStepLoop_step)
  next
    case False
    then show ?thesis using "1.prems" by (simp add: subStepLoop_stop)
  qed
qed

lemma update_invariant:
  assumes "\<And>t w. Q w \<Longrightarrow> Q (fixedUpdate t w)" "\<And>a w. Q w \<Longrightarrow> Q (w\<lparr>accumulator := a\<rparr>)" "Q w"
  shows "Q (update dt w)"
proof -
  have 1: "Q (w\<lparr>accumulator := accumulator w + min dt 0.1\<rparr>)" using assms by blast
  have 2: "Q (snd (subStepLoop 0 (w\<lparr>accumulator := accumulator w + min dt 0.1\<rparr>)))"
    by (rule subStepLoop_invariant[OF assms(1,2) 1])
  show ?thesis using 2 assms(1,2) by (simp add: update_def Let_def split_beta)
qed

lemma massProps_update:
  "map massProps (bodies (update dt w)) = map massProps (bodies w) \<and>
   map massProps (staticBodies (update dt w)) = map massProps (staticBodies w)"
  by (rule update_invariant[where Q = "\<lambda>w'. map massProps (bodies w') = map massProps (bodies w) \<and>
   map massProps (staticBodies w') = map massProps (staticBodies w)"])
     (simp_all add: massProps_fixedUpdate)

subsection \<open>C5: inverse mass and the static flag\<close>

text \<open>
  C5 claims that \<^verbatim>\<open>invMass == 0\<close> holds exactly for static bodies, after construction
  and for ever. The constructor computes \<^verbatim>\<open>invMass = mass > 0 ? 1 / mass : 0\<close> before it
  looks at \<^verbatim>\<open>isStatic\<close>, so a body that is not static but has a mass option of zero (or
  below) has \<^verbatim>\<open>invMass == 0\<close> as well: the equivalence fails from right to left.
\<close>

theorem PhysicsBody_zero_mass_counterexample:
  "invMass (PhysicsBody (noOptions\<lparr>opt_mass := Some 0\<rparr>)) = 0 \<and>
   \<not> isStatic (PhysicsBody (noOptions\<lparr>opt_mass := Some 0\<rparr>))"
  by (simp add: PhysicsBody_def noOptions_def orDefault_def)

text \<open>
  C5 as amended: after construction, for every combination of the \<^verbatim>\<open>mass\<close> and
  \<^verbatim>\<open>isStatic\<close> options, \<^verbatim>\<open>invMass == 0\<close> holds exactly when the body is static or its
  mass option (default 1) is not positive; so every static body has \<^verbatim>\<open>invMass == 0\<close>.
  No physics operation writes \<^verbatim>\<open>mass\<close>, \<^verbatim>\<open>invMass\<close> or \<^verbatim>\<open>isStatic\<close>: the body
  operations, collision resolution and a whole \<^verbatim>\<open>update\<close> of the world leave them as they
  are in every body of both lists.
\<close>

theorem invMass_zero_iff_static_or_massless:
  "(invMass (PhysicsBody opts) = 0 \<longleftrightarrow>
      (isStatic (PhysicsBody opts) \<or> orDefault (opt_mass opts) 1 \<le> 0)) \<and>
   massProps (applyForce f b) = massProps b \<and>
   massProps (applyImpulse f b) = massProps b \<and>
   massProps (integrateForces t b) = massProps b \<and>
   massProps (integrateVelocity t b) = massProps b \<and>
   massProps (emergencyCorrection p b) = massProps b \<and>
   massProps (applyGravitationalForce p b) = massProps b \<and>
   massProps (handlePlanetSurfaceInteraction p t b) = massProps b \<and>
   massProps (checkWorldBounds w b) = massProps b \<and>
   massProps (fst (resolveCollision a b)) = massProps a \<and>
   massProps (snd (resolveCollision a b)) = massProps b \<and>
   map massProps (bodies (update dt w)) = map massProps (bodies w) \<and>
   map massProps (staticBodies (update dt w)) = map massProps (staticBodies w)"
proof -
  have c: "invMass (PhysicsBody opts) = 0 \<longleftrightarrow>
      (isStatic (PhysicsBody opts) \<or> orDefault (opt_mass opts) 1 \<le> 0)"
    by (auto simp: PhysicsBody_def Let_def)
  have r: "massProps (fst (resolveCollision a b)) = massProps a"
          "massProps (snd (resolveCollision a b)) = massProps b"
    by (simp_all add: resolveCollision_def massProps_resolve split: option.splits)
  show ?thesis
    using c r massProps_update[of dt w]
    by (simp add: massProps_ops massProps_surface)
qed

subsection \<open>C9: the flat-world ground check\<close>

lemma flatWorld_simps [simp]:
  "planetBody flatWorld = None" "groundThreshold flatWorld = 0.15"
  by (simp_all add: flatWorld_def PhysicsWorld_def)

lemma risingBody_simps:
  "position risingBody = Vector3 0 0.1 0" "velocity risingBody = Vector3 0 5 0"
  "onGround risingBody = False"
  by (simp_all add: risingBody_def PhysicsBody_def noOptions_def orDefault_def Let_def)

lemma sunkBody_simps:
  "position sunkBody = Vector3 0 (-1) 0" "velocity sunkBody = Vector3 0 (-2) 0"
  "onGround sunkBody = False"
  by (simp_all add: sunkBody_def PhysicsBody_def noOptions_def orDefault_def Let_def)

text \<open>
  C9 claims that, with no planet field, the ground check clamps every dynamic body below
  the threshold to the minimum height and classifies it as grounded. A body at height
  0.1, below the threshold 0.15, that moves upwards at speed 5 is neither moved nor
  classified as grounded: the clamp is guarded by \<^verbatim>\<open>position.y < 0\<close> and the
  classification by \<^verbatim>\<open>velocity.y <= 0.1\<close>.
\<close>

theorem checkWorldBounds_rising_counterexample:
  "planetBody flatWorld = None \<and>
   vy (position risingBody) < groundThreshold flatWorld \<and>
   \<not> onGround (checkWorldBounds flatWorld risingBody) \<and>
   position (checkWorldBounds flatWorld risingBody) = Vector3 0 0.1 0"
  by (simp add: checkWorldBounds_def risingBody_simps)

text \<open>
  C9 as amended: with no planet field set, the ground check that ends each fixed
  sub-step (\<open>fixedUpdate\<close> maps it over the dynamic bodies)
  \<^item> moves a body to height 0.05 only when its height is below the threshold and negative,
    and leaves every other position as it is;
  \<^item> classifies a body below the threshold as grounded when its vertical velocity is at
    most 0.1, and leaves its flag as it was otherwise; classifies every body at or above
    the threshold as not grounded;
  \<^item> sets a negative vertical velocity of a body below the threshold to zero and leaves
    every other velocity as it is.
\<close>

theorem checkWorldBounds_cases:
  assumes "planetBody w = None"
  shows "position (checkWorldBounds w b) =
           (if vy (position b) < groundThreshold w \<and> vy (position b) < 0
            then Vector3 (vx (position b)) 0.05 (vz (position b)) else position b) \<and>
         onGround (checkWorldBounds w b) =
           (if vy (position b) < groundThreshold w
            then (vy (velocity b) \<le> 0.1 \<or> onGround b) else False) \<and>
         velocity (checkWorldBounds w b) =
           (if vy (position b) < groundThreshold w \<and> vy (velocity b) < 0
            then Vector3 (vx (velocity b)) 0 (vz (velocity b)) else velocity b)"
  using assms by (simp add: checkWorldBounds_def Let_def)

theorem checkWorldBounds_cases_witness:
  "planetBody flatWorld = None \<and>
   position (checkWorldBounds flatWorld sunkBody) = Vector3 0 0.05 0 \<and>
   onGround (checkWorldBounds flatWorld sunkBody) \<and>
   velocity (checkWorldBounds flatWorld sunkBody) = Vector3 0 0 0"
  using checkWorldBounds_cases[of flatWorld sunkBody]
  by (simp add: sunkBody_simps)

subsection \<open>C10: what \<open>clear\<close> resets and what it keeps\<close>

lemma detectCollisions_single: "detectCollisions ([b], []) = ([b], [])"
  by (simp add: detectCollisions_def dynamicLoop_def staticLoop_def)

lemma detectCollisions_none: "detectCollisions ([], ss) = ([], ss)"
  by (simp add: detectCollisions_def)

text \<open>
  C10: \<^verbatim>\<open>clear()\<close> leaves in the two lists only the player's body, in the list that matches
  its \<^verbatim>\<open>isStatic\<close> flag, or nothing when there is no player body, and writes no other
  field of the world: \<^verbatim>\<open>planetBody\<close>, \<^verbatim>\<open>gravity\<close>, \<^verbatim>\<open>accumulator\<close>, \<^verbatim>\<open>fixedTimeStep\<close>,
  \<^verbatim>\<open>groundThreshold\<close> and \<^verbatim>\<open>maxSubSteps\<close> keep their values. So after a planet field is
  installed and the world cleared, the planet's static body is in no list, and the next
  fixed step still runs the player's body through the radial pipeline of that planet:
  emergency correction, velocity integration, radial gravity, force integration and
  surface interaction.
\<close>

theorem clear_keeps_planet:
  "bodies (clear None w) = [] \<and> staticBodies (clear None w) = [] \<and>
   bodies (clear (Some pb) w) = (if isStatic pb then [] else [pb]) \<and>
   staticBodies (clear (Some pb) w) = (if isStatic pb then [pb] else []) \<and>
   planetBody (clear player w) = planetBody w \<and>
   gravity (clear player w) = gravity w \<and>
   accumulator (clear player w) = accumulator w \<and>
   fixedTimeStep (clear player w) = fixedTimeStep w \<and>
   groundThreshold (clear player w) = groundThreshold w \<and>
   maxSubSteps (clear player w) = maxSubSteps w \<and>
   staticBodies (fixedUpdate t (clear (Some pb) (setPlanetBody p w))) =
     (if isStatic pb then [pb] else []) \<and>
   bodies (fixedUpdate t (clear (Some pb) (setPlanetBody p w))) =
     (if isStatic pb then []
      else [handlePlanetSurfaceInteraction p t
              (integrateForces t
                 (applyGravitationalForce p
                    (integrateVelocity t (emergencyCorrection p pb))))])"
  by (simp add: clear_def setPlanetBody_def fixedUpdate_def Let_def gravityStep_def
      detectCollisions_single detectCollisions_none applyGravitationalForce_def
      split: option.splits)

subsection \<open>Vectors\<close>

lemma lengthSq_nonneg [simp]: "0 \<le> lengthSq v"
  by (simp add: lengthSq_def)

lemma vlength_nonneg [simp]: "0 \<le> vlength v"
  by (simp add: vlength_def)

lemma lengthSq_eq_0_iff: "lengthSq v = 0 \<longleftrightarrow> v = Vector3 0 0 0"
proof (cases v)
  case (Vector3 a b c)
  have "a * a + b * b + c * c = 0 \<longleftrightarrow> a = 0 \<and> b = 0 \<and> c = 0"
    by (simp add: add_nonneg_eq_0_iff sum_squares_eq_zero_iff)
  then show ?thesis using Vector3 by (simp add: lengthSq_def)
qed

lemma vlength_eq_0_iff: "vlength v = 0 \<longleftrightarrow> v = Vector3 0 0 0"
  by (simp add: vlength_def lengthSq_eq_0_iff)

lemma lengthSq_multiplyScalar: "lengthSq (multiplyScalar v s) = s * s * lengthSq v"
  by (simp add: lengthSq_def multiplyScalar_def algebra_simps)

lemma vlength_multiplyScalar: "vlength (multiplyScalar v s) = \<bar>s\<bar> * vlength v"
  by (simp add: vlength_def lengthSq_multiplyScalar real_sqrt_mult)

lemma vlength_normalize: "v \<noteq> Vector3 0 0 0 \<Longrightarrow> vlength (normalizeV v) = 1"
  by (simp add: normalizeV_def divideScalar_def vlength_multiplyScalar orElse_def vlength_eq_0_iff)

lemma normalize_scale: "multiplyScalar (normalizeV v) (vlength v) = v"
  by (cases v) (simp add: normalizeV_def divideScalar_def multiplyScalar_def orElse_def vlength_eq_0_iff)

lemma vlength_axis_x [simp]: "vlength (Vector3 a 0 0) = \<bar>a\<bar>"
  by (simp add: vlength_def lengthSq_def)

lemma distanceTo_vlength: "distanceTo a b = vlength (vsub a b)"
  by (simp add: distanceTo_def distanceToSquared_def vlength_def)

lemma distanceToSquared_commute: "distanceToSquared a b = distanceToSquared b a"
  by (simp add: distanceToSquared_def lengthSq_def vsub_def power2_eq_square[symmetric] power2_commute)

lemma vsub_eq_zero_iff: "vsub a b = Vector3 0 0 0 \<longleftrightarrow> a = b"
  by (cases a; cases b) (simp add: vsub_def)

lemma intersectsSphere_iff: "intersectsSphere p r q s \<longleftrightarrow> distanceTo p q \<le> \<bar>r + s\<bar>"
proof -
  have "distanceTo p q \<le> \<bar>r + s\<bar> \<longleftrightarrow> sqrt (distanceToSquared p q) \<le> sqrt ((r + s) * (r + s))"
    by (simp add: distanceTo_def)
  also have "\<dots> \<longleftrightarrow> distanceToSquared p q \<le> (r + s) * (r + s)"
    by (rule real_sqrt_le_iff)
  finally show ?thesis by (simp add: intersectsSphere_def distanceToSquared_commute[of q p])
qed

subsection \<open>Impulse resolution with collision info\<close>

lemma orElse_zero [simp]: "orElse a 0 = a"
  by (simp add: orElse_def)

lemma resolveWithInfo_separating:
  "velAlongNormal a b n > 0 \<Longrightarrow> resolveWithInfo n d a b = (a, b)"
  by (simp add: resolveWithInfo_def velAlongNormal_def Let_def)

lemma resolveWithInfo_massless:
  "invMass a + invMass b = 0 \<Longrightarrow> resolveWithInfo n d a b = (a, b)"
  by (simp add: resolveWithInfo_def Let_def)

lemma velocity_syncCollider [simp]: "velocity (syncCollider b) = velocity b"
  by (simp add: syncCollider_def)

lemma resolveWithInfo_velocity:
  assumes "0 \<le> invMass a" "0 \<le> invMass b" "\<not> velAlongNormal a b n > 0" "invMass a + invMass b \<noteq> 0"
  shows "velocity (fst (resolveWithInfo n d a b)) =
           vadd (velocity a) (multiplyScalar n (impulseScalar a b n * invMass a))"
    and "velocity (snd (resolveWithInfo n d a b)) =
           vsub (velocity b) (multiplyScalar n (impulseScalar a b n * invMass b))"
proof -
  have za: "\<not> invMass a > 0 \<Longrightarrow> invMass a = 0" using assms(1) by simp
  have zb: "\<not> invMass b > 0 \<Longrightarrow> invMass b = 0" using assms(2) by simp
  have va: "vadd v (multiplyScalar (multiplyScalar n j) m) = vadd v (multiplyScalar n (j * m))" for v j m
    by (simp add: vadd_def multiplyScalar_def algebra_simps)
  have vb: "vsub v (multiplyScalar (multiplyScalar n j) m) = vsub v (multiplyScalar n (j * m))" for v j m
    by (simp add: vsub_def multiplyScalar_def algebra_simps)
  have v0: "vadd v (multiplyScalar n 0) = v" "vsub v (multiplyScalar n 0) = v" for v
    by (cases v; simp add: vadd_def vsub_def multiplyScalar_def)+
  show "velocity (fst (resolveWithInfo n d a b)) =
           vadd (velocity a) (multiplyScalar n (impulseScalar a b n * invMass a))"
    using assms(3,4) za
    by (cases "invMass a > 0")
       (simp_all add: resolveWithInfo_def Let_def velAlongNormal_def impulseScalar_def va v0)
  show "velocity (snd (resolveWithInfo n d a b)) =
           vsub (velocity b) (multiplyScalar n (impulseScalar a b n * invMass b))"
    using assms(3,4) zb
    by (cases "invMass b > 0")
       (simp_all add: resolveWithInfo_def Let_def velAlongNormal_def impulseScalar_def vb v0)
qed

text \<open>
  What \<^verbatim>\<open>resolveCollision\<close> does with collision info \<^verbatim>\<open>{normal, depth}\<close> (from A's
  \<^verbatim>\<open>checkCollision\<close>, or from B's with the normal inverted), in terms of the sign of
  \<open>velAlongNormal\<close> alone: a positive sign or inverse masses that sum to zero leave both
  bodies as they are; otherwise \<^verbatim>\<open>j * invMassA * normal\<close> is added to A's velocity and
  \<^verbatim>\<open>j * invMassB * normal\<close> subtracted from B's. Inverse masses are never negative: the
  constructor stores \<^verbatim>\<open>1 / mass\<close> for a positive mass and 0 otherwise, and nothing writes
  them afterwards. Whether a positive sign means that the bodies separate depends on the
  direction of the normal; for two spheres it points from B to A, and the approaching
  unit spheres below receive the impulse.
\<close>

lemma resolveCollision_sign_test:
  assumes "pairInfo a b = Some i" "0 \<le> invMass a" "0 \<le> invMass b"
  shows "(velAlongNormal a b (normal i) > 0 \<longrightarrow> resolveCollision a b = (a, b)) \<and>
         (invMass a + invMass b = 0 \<longrightarrow> resolveCollision a b = (a, b)) \<and>
         (\<not> velAlongNormal a b (normal i) > 0 \<and> invMass a + invMass b \<noteq> 0 \<longrightarrow>
            velocity (fst (resolveCollision a b)) =
              vadd (velocity a)
                (multiplyScalar (normal i) (impulseScalar a b (normal i) * invMass a)) \<and>
            velocity (snd (resolveCollision a b)) =
              vsub (velocity b)
                (multiplyScalar (normal i) (impulseScalar a b (normal i) * invMass b)))"
  using assms
  by (simp add: resolveCollision_def resolveWithInfo_separating resolveWithInfo_massless
      resolveWithInfo_velocity)

lemma unitSphere_simps:
  "collider unitSphereA = SphereCollider (Vector3 0 0 0) 1"
  "collider unitSphereB = SphereCollider (Vector3 1.5 0 0) 1"
  "bodyClass unitSphereA = PhysicsBodyClass"
  "velocity unitSphereA = Vector3 1 0 0" "velocity unitSphereB = Vector3 0 0 0"
  "invMass unitSphereA = 1" "invMass unitSphereB = 1"
  "restitution unitSphereA = 0.1" "restitution unitSphereB = 0.1"
  by (simp_all add: unitSphereA_def unitSphereB_def PhysicsBody_def noOptions_def
      orDefault_def Let_def zeroV_def)

lemma unitSphere_info:
  "sphereSphereInfo (Vector3 0 0 0) 1 (Vector3 (3 / 2) 0 0) 1 =
     Some \<lparr>normal = Vector3 (-1) 0 0, depth = 1 / 2, point = Vector3 (-1) 0 0\<rparr>"
  by (simp add: sphereSphereInfo_def distanceTo_vlength vsub_def Let_def normalizeV_def
      divideScalar_def multiplyScalar_def vadd_def orElse_def)

lemma unitSphere_pairInfo:
  "pairInfo unitSphereA unitSphereB =
     Some \<lparr>normal = Vector3 (-1) 0 0, depth = 0.5, point = Vector3 (-1) 0 0\<rparr>"
  by (simp add: pairInfo_def bodyCheckCollision_def unitSphere_simps unitSphere_info)

lemma unitSpheres_resolved:
  "velocity (fst (resolveCollision unitSphereA unitSphereB)) = Vector3 0.45 0 0 \<and>
   velocity (snd (resolveCollision unitSphereA unitSphereB)) = Vector3 0.55 0 0"
  using resolveCollision_sign_test[OF unitSphere_pairInfo]
  by (simp add: unitSphere_simps velAlongNormal_def impulseScalar_def vsub_def vadd_def dot_def
      multiplyScalar_def)

subsection \<open>C6: sphere against sphere\<close>

lemma distanceTo_surface:
  assumes "p \<noteq> q"
  shows "distanceTo (vadd (multiplyScalar (normalizeV (vsub p q)) r) p) p = \<bar>r\<bar>"
proof -
  have "vsub (vadd (multiplyScalar n r) p) p = multiplyScalar n r" for n
    by (simp add: vsub_def vadd_def multiplyScalar_def)
  then show ?thesis
    using assms
    by (simp add: distanceTo_vlength vlength_multiplyScalar vlength_normalize vsub_eq_zero_iff)
qed

text \<open>
  C6 claims that \<^verbatim>\<open>intersects\<close> of two spheres is true exactly when the distance of the
  centres is below \<^verbatim>\<open>r1 + r2\<close>. \<^verbatim>\<open>intersects\<close> delegates to \<^verbatim>\<open>Sphere.intersectsSphere\<close> of
  three.js, a closed test: two unit spheres whose centres are 2 apart touch, and
  \<^verbatim>\<open>intersects\<close> is true for them while the distance is not below 2 (\<^verbatim>\<open>getCollisionInfo\<close>,
  which compares with \<^verbatim>\<open><\<close> itself, reports no contact).
\<close>

theorem touching_spheres_counterexample:
  "intersects (SphereCollider (Vector3 0 0 0) 1) (SphereCollider (Vector3 2 0 0) 1) \<and>
   \<not> distanceTo (Vector3 0 0 0) (Vector3 2 0 0) < 1 + 1 \<and>
   getCollisionInfo (SphereCollider (Vector3 0 0 0) 1) (SphereCollider (Vector3 2 0 0) 1) = None"
  by (simp add: intersectsSphere_iff sphereSphereInfo_def Let_def distanceTo_vlength vsub_def)

text \<open>
  C6 as amended: for sphere colliders A (the receiver, centre \<open>p\<close>, radius \<open>r\<close>) and B
  (centre \<open>q\<close>, radius \<open>s\<close>), \<^verbatim>\<open>intersects\<close> is true exactly when the distance of the centres
  is at most \<open>\<bar>r + s\<bar>\<close>, that is at most \<open>r + s\<close> for radii that are not negative;
  \<^verbatim>\<open>getCollisionInfo\<close> returns a contact exactly when the distance is below \<open>r + s\<close>, with
  the normal \<open>p - q\<close> normalised, depth \<open>(r + s) - distance\<close> and the point \<open>p + r * normal\<close>,
  and none otherwise. For distinct centres the normal is the unit vector from B to A and
  the point lies on A's surface. Two unit spheres 1.5 apart intersect with depth 0.5 (the
  witness below).
\<close>

theorem sphere_sphere_contact:
  "intersects (SphereCollider p r) (SphereCollider q s) = (distanceTo p q \<le> \<bar>r + s\<bar>) \<and>
   getCollisionInfo (SphereCollider p r) (SphereCollider q s) =
     (if distanceTo p q < r + s
      then Some \<lparr>normal = normalizeV (vsub p q),
                 depth = (r + s) - distanceTo p q,
                 point = vadd (multiplyScalar (normalizeV (vsub p q)) r) p\<rparr>
      else None) \<and>
   (p \<noteq> q \<longrightarrow>
      vlength (normalizeV (vsub p q)) = 1 \<and>
      multiplyScalar (normalizeV (vsub p q)) (distanceTo p q) = vsub p q \<and>
      distanceTo (vadd (multiplyScalar (normalizeV (vsub p q)) r) p) p = \<bar>r\<bar>)"
proof -
  have 1: "getCollisionInfo (SphereCollider p r) (SphereCollider q s) =
     (if distanceTo p q < r + s
      then Some \<lparr>normal = normalizeV (vsub p q),
                 depth = (r + s) - distanceTo p q,
                 point = vadd (multiplyScalar (normalizeV (vsub p q)) r) p\<rparr>
      else None)"
    by (simp add: sphereSphereInfo_def Let_def)
  have 2: "p \<noteq> q \<Longrightarrow> vlength (normalizeV (vsub p q)) = 1"
    by (simp add: vlength_normalize vsub_eq_zero_iff)
  have 3: "multiplyScalar (normalizeV (vsub p q)) (distanceTo p q) = vsub p q"
    by (simp add: distanceTo_vlength normalize_scale)
  show ?thesis
    using 1 2 3 by (simp add: intersectsSphere_iff distanceTo_surface)
qed

theorem sphere_sphere_contact_witness:
  "Vector3 0 0 0 \<noteq> Vector3 (3 / 2) 0 0 \<and>
   intersects (SphereCollider (Vector3 0 0 0) 1) (SphereCollider (Vector3 (3 / 2) 0 0) 1) \<and>
   getCollisionInfo (SphereCollider (Vector3 0 0 0) 1) (SphereCollider (Vector3 (3 / 2) 0 0) 1) =
     Some \<lparr>normal = Vector3 (-1) 0 0, depth = 1 / 2, point = Vector3 (-1) 0 0\<rparr> \<and>
   distanceTo (Vector3 (-1) 0 0) (Vector3 0 0 0) = 1"
  using sphere_sphere_contact[of "Vector3 0 0 0" 1 "Vector3 (3 / 2) 0 0" 1]
  by (simp add: distanceTo_vlength vsub_def normalizeV_def divideScalar_def multiplyScalar_def
      vadd_def orElse_def)

subsection \<open>C7: box against box\<close>

lemma overlapOn_axes:
  assumes "nonNegative h" "nonNegative k"
  shows "overlapOn p h q k (Vector3 1 0 0) =
           min (vx p + vx h) (vx q + vx k) - max (vx p - vx h) (vx q - vx k)"
    and "overlapOn p h q k (Vector3 0 1 0) =
           min (vy p + vy h) (vy q + vy k) - max (vy p - vy h) (vy q - vy k)"
    and "overlapOn p h q k (Vector3 0 0 1) =
           min (vz p + vz h) (vz q + vz k) - max (vz p - vz h) (vz q - vz k)"
  using assms by (simp_all add: overlapOn_def projectOntoAxis_def dot_def Let_def nonNegative_def)

lemma intersectsBox_overlap:
  assumes "nonNegative h" "nonNegative k"
  shows "intersects (BoxCollider p h) (BoxCollider q k) \<longleftrightarrow>
           0 \<le> overlapOn p h q k (Vector3 1 0 0) \<and>
           0 \<le> overlapOn p h q k (Vector3 0 1 0) \<and>
           0 \<le> overlapOn p h q k (Vector3 0 0 1)"
  using assms unfolding overlapOn_axes[OF assms]
  by (auto simp: intersectsBox_def boxMin_def boxMax_def vsub_def vadd_def nonNegative_def)

lemma axisLoop_worldAxes:
  "axisLoop p h q k worldAxes None a0 =
     (if overlapOn p h q k (Vector3 1 0 0) \<le> 0 \<or> overlapOn p h q k (Vector3 0 1 0) \<le> 0
         \<or> overlapOn p h q k (Vector3 0 0 1) \<le> 0 then None
      else Some (Some (min (overlapOn p h q k (Vector3 1 0 0))
                         (min (overlapOn p h q k (Vector3 0 1 0)) (overlapOn p h q k (Vector3 0 0 1)))),
                 if overlapOn p h q k (Vector3 0 0 1)
                      < min (overlapOn p h q k (Vector3 1 0 0)) (overlapOn p h q k (Vector3 0 1 0))
                 then orientAxis p q (Vector3 0 0 1)
                 else if overlapOn p h q k (Vector3 0 1 0) < overlapOn p h q k (Vector3 1 0 0)
                 then orientAxis p q (Vector3 0 1 0)
                 else orientAxis p q (Vector3 1 0 0)))"
  by (auto simp: worldAxes_def Let_def orientAxis_def min_def)

text \<open>
  C7: for axis-aligned box colliders A (the receiver, centre \<open>p\<close>, half-extents \<open>h\<close>) and B
  (centre \<open>q\<close>, half-extents \<open>k\<close>) without negative half-extents, \<^verbatim>\<open>getCollisionInfo\<close> tests
  the three world axes only. On each axis the overlap is that of the projected
  intervals \<open>[centre - half-extent, centre + half-extent]\<close>. The result is none if the
  overlap is not positive on some axis; otherwise the normal is the axis of least overlap
  (the earlier axis on a tie), oriented from A to B by the sign of the displacement of
  the centres along it, and the depth is that least overlap. Two boxes of half-extents
  (1,1,1) centred 1.5 apart on the X axis give depth 0.5 along the X axis (the witness
  below).
\<close>

theorem box_box_separating_axis:
  assumes "nonNegative h" "nonNegative k"
  shows "getCollisionInfo (BoxCollider p h) (BoxCollider q k) =
     (if overlapOn p h q k (Vector3 1 0 0) \<le> 0 \<or> overlapOn p h q k (Vector3 0 1 0) \<le> 0
         \<or> overlapOn p h q k (Vector3 0 0 1) \<le> 0 then None
      else Some \<lparr>normal =
                   (if overlapOn p h q k (Vector3 0 0 1)
                        < min (overlapOn p h q k (Vector3 1 0 0)) (overlapOn p h q k (Vector3 0 1 0))
                    then orientAxis p q (Vector3 0 0 1)
                    else if overlapOn p h q k (Vector3 0 1 0) < overlapOn p h q k (Vector3 1 0 0)
                    then orientAxis p q (Vector3 0 1 0)
                    else orientAxis p q (Vector3 1 0 0)),
                 depth = min (overlapOn p h q k (Vector3 1 0 0))
                           (min (overlapOn p h q k (Vector3 0 1 0)) (overlapOn p h q k (Vector3 0 0 1))),
                 point = multiplyScalar (vadd p q) 0.5\<rparr>) \<and>
     overlapOn p h q k (Vector3 1 0 0) =
           min (vx p + vx h) (vx q + vx k) - max (vx p - vx h) (vx q - vx k) \<and>
     overlapOn p h q k (Vector3 0 1 0) =
           min (vy p + vy h) (vy q + vy k) - max (vy p - vy h) (vy q - vy k) \<and>
     overlapOn p h q k (Vector3 0 0 1) =
           min (vz p + vz h) (vz q + vz k) - max (vz p - vz h) (vz q - vz k)"
proof -
  have i: "\<not> intersects (BoxCollider p h) (BoxCollider q k) \<Longrightarrow>
      overlapOn p h q k (Vector3 1 0 0) \<le> 0 \<or> overlapOn p h q k (Vector3 0 1 0) \<le> 0
         \<or> overlapOn p h q k (Vector3 0 0 1) \<le> 0"
    using intersectsBox_overlap[OF assms, of p q] by auto
  have "getCollisionInfo (BoxCollider p h) (BoxCollider q k) =
     (if overlapOn p h q k (Vector3 1 0 0) \<le> 0 \<or> overlapOn p h q k (Vector3 0 1 0) \<le> 0
         \<or> overlapOn p h q k (Vector3 0 0 1) \<le> 0 then None
      else Some \<lparr>normal =
                   (if overlapOn p h q k (Vector3 0 0 1)
                        < min (overlapOn p h q k (Vector3 1 0 0)) (overlapOn p h q k (Vector3 0 1 0))
                    then orientAxis p q (Vector3 0 0 1)
                    else if overlapOn p h q k (Vector3 0 1 0) < overlapOn p h q k (Vector3 1 0 0)
                    then orientAxis p q (Vector3 0 1 0)
                    else orientAxis p q (Vector3 1 0 0)),
                 depth = min (overlapOn p h q k (Vector3 1 0 0))
                           (min (overlapOn p h q k (Vector3 0 1 0)) (overlapOn p h q k (Vector3 0 0 1))),
                 point = multiplyScalar (vadd p q) 0.5\<rparr>)"
  proof (cases "intersects (BoxCollider p h) (BoxCollider q k)")
    case True
    then show ?thesis
      by (simp add: boxBoxInfo_def axisLoop_worldAxes del: intersects.simps)
  next
    case False
    then show ?thesis using i
      by (simp add: boxBoxInfo_def del: intersects.simps)
  qed
  then show ?thesis using overlapOn_axes[OF assms] by simp
qed

theorem box_box_separating_axis_witness:
  "nonNegative (Vector3 1 1 1) \<and>
   getCollisionInfo (BoxCollider (Vector3 0 0 0) (Vector3 1 1 1))
                    (BoxCollider (Vector3 (3 / 2) 0 0) (Vector3 1 1 1)) =
     Some \<lparr>normal = Vector3 1 0 0, depth = 1 / 2, point = Vector3 (3 / 4) 0 0\<rparr>"
  using box_box_separating_axis[of "Vector3 1 1 1" "Vector3 1 1 1" "Vector3 0 0 0" "Vector3 (3 / 2) 0 0"]
  by (simp add: nonNegative_def orientAxis_def vsub_def dot_def vadd_def multiplyScalar_def)

subsection \<open>C2: the step scheduler\<close>

lemma gravityStep_accumulator [simp]: "gravityStep (w\<lparr>accumulator := a\<rparr>) = gravityStep w"
  by (rule ext)+ (simp add: gravityStep_def split: option.splits)

lemma checkWorldBounds_accumulator [simp]:
  "checkWorldBounds (w\<lparr>accumulator := a\<rparr>) = checkWorldBounds w"
  by (rule ext) (simp add: checkWorldBounds_def)

lemma fixedUpdate_accumulator:
  "fixedUpdate t (w\<lparr>accumulator := a\<rparr>) = (fixedUpdate t w)\<lparr>accumulator := a\<rparr>"
  by (simp add: fixedUpdate_def Let_def split: option.splits)

lemma funpow_fixedUpdate_accumulator:
  "(fixedUpdate t ^^ n) (w\<lparr>accumulator := a\<rparr>) = ((fixedUpdate t ^^ n) w)\<lparr>accumulator := a\<rparr>"
  by (induction n) (simp_all add: fixedUpdate_accumulator)

lemma funpow_fixedUpdate_frame [simp]:
  "fixedTimeStep ((fixedUpdate t ^^ n) w) = fixedTimeStep w"
  "maxSubSteps ((fixedUpdate t ^^ n) w) = maxSubSteps w"
  "accumulator ((fixedUpdate t ^^ n) w) = accumulator w"
  by (induction n) simp_all

lemma subStepLoop_char:
  "fst (subStepLoop k w) \<ge> k \<and>
   (k \<le> maxSubSteps w \<longrightarrow> fst (subStepLoop k w) \<le> maxSubSteps w) \<and>
   snd (subStepLoop k w) =
     ((fixedUpdate (fixedTimeStep w) ^^ (fst (subStepLoop k w) - k)) w)
       \<lparr>accumulator := accumulator w - real (fst (subStepLoop k w) - k) * fixedTimeStep w\<rparr> \<and>
   (fst (subStepLoop k w) < maxSubSteps w \<longrightarrow>
      accumulator w - real (fst (subStepLoop k w) - k) * fixedTimeStep w < fixedTimeStep w)"
proof (induction k w rule: subStepLoop.induct)
  case (1 substep w)
  show ?case
  proof (cases "accumulator w \<ge> fixedTimeStep w \<and> substep < maxSubSteps w")
    case False
    then show ?thesis by (auto simp: subStepLoop_stop)
  next
    case True
    define w1 where "w1 = (fixedUpdate (fixedTimeStep w) w)
        \<lparr>accumulator := accumulator (fixedUpdate (fixedTimeStep w) w)
                          - fixedTimeStep (fixedUpdate (fixedTimeStep w) w)\<rparr>"
    define m where "m = fst (subStepLoop (Suc substep) w1)"
    have w1: "w1 = (fixedUpdate (fixedTimeStep w) w)\<lparr>accumulator := accumulator w - fixedTimeStep w\<rparr>"
      by (simp add: w1_def)
    have eq: "subStepLoop substep w = subStepLoop (Suc substep) w1"
      using True by (simp add: subStepLoop_step w1)
    have IH: "m \<ge> Suc substep \<and>
      (Suc substep \<le> maxSubSteps w1 \<longrightarrow> m \<le> maxSubSteps w1) \<and>
      snd (subStepLoop (Suc substep) w1) =
        ((fixedUpdate (fixedTimeStep w1) ^^ (m - Suc substep)) w1)
          \<lparr>accumulator := accumulator w1 - real (m - Suc substep) * fixedTimeStep w1\<rparr> \<and>
      (m < maxSubSteps w1 \<longrightarrow>
         accumulator w1 - real (m - Suc substep) * fixedTimeStep w1 < fixedTimeStep w1)"
      using "1.IH"[OF True refl, folded w1_def, folded m_def] .
    have f1: "fixedTimeStep w1 = fixedTimeStep w" "maxSubSteps w1 = maxSubSteps w"
      "accumulator w1 = accumulator w - fixedTimeStep w"
      by (simp_all add: w1)
    have ge: "Suc substep \<le> m" using IH by blast
    have ms: "m - substep = Suc (m - Suc substep)" using ge by arith
    have r: "real (m - substep) = real (m - Suc substep) + 1" using ms by simp
    have pw: "(fixedUpdate (fixedTimeStep w) ^^ (m - Suc substep)) w1 =
        ((fixedUpdate (fixedTimeStep w) ^^ (m - substep)) w)\<lparr>accumulator := accumulator w - fixedTimeStep w\<rparr>"
      unfolding w1 ms by (simp add: funpow_fixedUpdate_accumulator funpow_swap1)
    have acc: "accumulator w - fixedTimeStep w - real (m - Suc substep) * fixedTimeStep w
       = accumulator w - real (m - substep) * fixedTimeStep w"
      unfolding r by (simp add: algebra_simps)
    show ?thesis
      using IH True unfolding eq m_def[symmetric] f1 pw acc by (simp del: of_nat_diff)
  qed
qed


lemma fullSteps_bound: "fullSteps dt w \<le> maxSubSteps w"
  using subStepLoop_char[of 0 "w\<lparr>accumulator := accumulator w + min dt 0.1\<rparr>"]
  by (simp add: fullSteps_def)

lemma subStepLoop_result:
  "snd (subStepLoop 0 (w\<lparr>accumulator := accumulator w + min dt 0.1\<rparr>)) =
     ((fixedUpdate (fixedTimeStep w) ^^ fullSteps dt w) w)\<lparr>accumulator := remainder dt w\<rparr>"
  using subStepLoop_char[of 0 "w\<lparr>accumulator := accumulator w + min dt 0.1\<rparr>"]
  by (simp add: fullSteps_def remainder_def funpow_fixedUpdate_accumulator)

lemma drained_or_exhausted:
  "fullSteps dt w = maxSubSteps w \<or> remainder dt w < fixedTimeStep w"
  using subStepLoop_char[of 0 "w\<lparr>accumulator := accumulator w + min dt 0.1\<rparr>"]
  by (auto simp: fullSteps_def remainder_def)

lemma update_eq:
  "update dt w =
     (if finalStep dt w
      then (fixedUpdate (remainder dt w)
              ((fixedUpdate (fixedTimeStep w) ^^ fullSteps dt w) w))\<lparr>accumulator := 0\<rparr>
      else ((fixedUpdate (fixedTimeStep w) ^^ fullSteps dt w) w)\<lparr>accumulator := remainder dt w\<rparr>)"
proof -
  define w1 where "w1 = w\<lparr>accumulator := accumulator w + min dt 0.1\<rparr>"
  have s: "snd (subStepLoop 0 w1) =
     ((fixedUpdate (fixedTimeStep w) ^^ fullSteps dt w) w)\<lparr>accumulator := remainder dt w\<rparr>"
    unfolding w1_def by (rule subStepLoop_result)
  have f: "fst (subStepLoop 0 w1) = fullSteps dt w"
    by (simp add: fullSteps_def w1_def)
  have u: "update dt w =
     (if fst (subStepLoop 0 w1) \<ge> maxSubSteps (snd (subStepLoop 0 w1))
         \<and> accumulator (snd (subStepLoop 0 w1)) > 0
      then (fixedUpdate (accumulator (snd (subStepLoop 0 w1))) (snd (subStepLoop 0 w1)))\<lparr>accumulator := 0\<rparr>
      else snd (subStepLoop 0 w1))"
    by (simp add: update_def Let_def split_beta w1_def)
  show ?thesis
    unfolding u s f by (simp add: finalStep_def fixedUpdate_accumulator)
qed

text \<open>
  C2: \<^verbatim>\<open>update(delta)\<close> terminates for every delta and every accumulator (\<open>update\<close> is a
  total function: its loop is defined with a termination proof, the counter \<^verbatim>\<open>substep\<close>
  rising to \<^verbatim>\<open>maxSubSteps\<close>). The delta enters the accumulator clamped to 0.1. The call
  runs \<open>fullSteps\<close> sub-steps of \<^verbatim>\<open>fixedTimeStep\<close> each, at most \<^verbatim>\<open>maxSubSteps\<close> of them, and
  stops earlier only when the accumulator is drained below \<^verbatim>\<open>fixedTimeStep\<close>. If the
  sub-steps are exhausted and a positive remainder is pending, one more sub-step consumes
  the remainder and the accumulator becomes zero; otherwise the remainder stays in the
  accumulator. The simulated time and the accumulator left add up to the old accumulator
  plus the clamped delta, and, for a time step that is not negative, the simulated time
  is at most \<^verbatim>\<open>maxSubSteps * fixedTimeStep\<close> plus the leftover step.
\<close>

theorem update_bounded_substeps:
  assumes "0 \<le> fixedTimeStep w"
  shows "fullSteps dt w \<le> maxSubSteps w \<and>
     (fullSteps dt w = maxSubSteps w \<or> remainder dt w < fixedTimeStep w) \<and>
     update dt w =
       (if finalStep dt w
        then (fixedUpdate (remainder dt w)
                ((fixedUpdate (fixedTimeStep w) ^^ fullSteps dt w) w))\<lparr>accumulator := 0\<rparr>
        else ((fixedUpdate (fixedTimeStep w) ^^ fullSteps dt w) w)\<lparr>accumulator := remainder dt w\<rparr>) \<and>
     simulatedTime dt w + accumulator (update dt w) = accumulator w + min dt 0.1 \<and>
     simulatedTime dt w \<le>
       real (maxSubSteps w) * fixedTimeStep w + (if finalStep dt w then remainder dt w else 0)"
proof -
  have t: "simulatedTime dt w + accumulator (update dt w) = accumulator w + min dt 0.1"
    unfolding update_eq by (simp add: simulatedTime_def remainder_def)
  have "real (fullSteps dt w) * fixedTimeStep w \<le> real (maxSubSteps w) * fixedTimeStep w"
    using fullSteps_bound[of dt w] assms by (simp add: mult_right_mono)
  then have b: "simulatedTime dt w \<le>
       real (maxSubSteps w) * fixedTimeStep w + (if finalStep dt w then remainder dt w else 0)"
    by (simp add: simulatedTime_def)
  show ?thesis
    using fullSteps_bound[of dt w] drained_or_exhausted[of dt w] update_eq[of dt w] t b
    by blast
qed

lemma fixedUpdate_empty: "bodies w = [] \<Longrightarrow> fixedUpdate t w = w"
  by (simp add: fixedUpdate_def Let_def detectCollisions_none split: option.splits)

lemma flatWorld_loop:
  "subStepLoop 0 (flatWorld\<lparr>accumulator := 1 / 10\<rparr>) = (3, flatWorld\<lparr>accumulator := 3 / 40\<rparr>)"
proof -
  have b: "bodies (flatWorld\<lparr>accumulator := a\<rparr>) = []" for a
    by (simp add: flatWorld_def PhysicsWorld_def)
  have f: "fixedTimeStep flatWorld = 1 / 120" "maxSubSteps flatWorld = 3"
    by (simp_all add: flatWorld_def PhysicsWorld_def)
  have "subStepLoop 0 (flatWorld\<lparr>accumulator := 1 / 10\<rparr>)
      = subStepLoop 1 (flatWorld\<lparr>accumulator := 11 / 120\<rparr>)"
    by (subst subStepLoop_step) (simp_all add: f fixedUpdate_empty[OF b])
  also have "\<dots> = subStepLoop 2 (flatWorld\<lparr>accumulator := 10 / 120\<rparr>)"
    by (subst subStepLoop_step) (simp_all add: f fixedUpdate_empty[OF b] numeral_2_eq_2)
  also have "\<dots> = subStepLoop 3 (flatWorld\<lparr>accumulator := 9 / 120\<rparr>)"
    by (subst subStepLoop_step) (simp_all add: f fixedUpdate_empty[OF b] numeral_3_eq_3 numeral_2_eq_2)
  also have "\<dots> = (3, flatWorld\<lparr>accumulator := 3 / 40\<rparr>)"
    by (subst subStepLoop_stop) (simp_all add: f)
  finally show ?thesis .
qed

theorem update_bounded_substeps_witness:
  "0 \<le> fixedTimeStep flatWorld \<and>
   fullSteps 1 flatWorld = 3 \<and> finalStep 1 flatWorld \<and> remainder 1 flatWorld = 3 / 40 \<and>
   accumulator (update 1 flatWorld) = 0 \<and>
   simulatedTime 1 flatWorld = 1 / 10 \<and>
   simulatedTime 1 flatWorld \<le> 3 * (1 / 120) + 3 / 40"
proof -
  have f: "fixedTimeStep flatWorld = 1 / 120" "maxSubSteps flatWorld = 3" "accumulator flatWorld = 0"
    by (simp_all add: flatWorld_def PhysicsWorld_def)
  have n: "fullSteps 1 flatWorld = 3"
    by (simp add: fullSteps_def f flatWorld_loop)
  have r: "remainder 1 flatWorld = 3 / 40"
    by (simp add: remainder_def n f)
  have fs: "finalStep 1 flatWorld"
    by (simp add: finalStep_def n r f)
  have st: "simulatedTime 1 flatWorld = 1 / 10"
    by (simp add: simulatedTime_def n r fs f)
  show ?thesis
    using update_bounded_substeps[of flatWorld 1] n r fs st
    by (simp add: f)
qed

subsection \<open>C4: static bodies\<close>

lemma resolveWithInfo_static: "invMass s = 0 \<Longrightarrow> snd (resolveWithInfo n d a s) = s"
  by (simp add: resolveWithInfo_def Let_def)

lemma resolveFallback_static: "invMass s = 0 \<Longrightarrow> snd (resolveFallback a s) = s"
  by (simp add: resolveFallback_def Let_def)

lemma resolveCollision_static: "invMass s = 0 \<Longrightarrow> snd (resolveCollision a s) = s"
  by (simp add: resolveCollision_def resolveWithInfo_static resolveFallback_static
      split: option.splits)

lemma collidePair_static: "invMass s = 0 \<Longrightarrow> snd (collidePair a s) = s"
  by (simp add: collidePair_def resolveCollision_static)

lemma staticLoop_static:
  assumes "\<forall>s \<in> set ss. invMass s = 0"
  shows "snd (staticLoop i (bs, ss)) = ss"
proof -
  have "snd (fold (\<lambda>k (cur, ss). if isPlanet (ss ! k) then (cur, ss)
                          else case collidePair (cur ! i) (ss ! k) of
                                 (a, s) \<Rightarrow> (cur[i := a], ss[k := s])) ks (cur, ss)) = ss"
    if "set ks \<subseteq> {..<length ss}" for ks cur
    using that
  proof (induction ks arbitrary: cur)
    case Nil
    show ?case by simp
  next
    case (Cons k ks)
    have k: "k < length ss" using Cons.prems by simp
    have z: "invMass (ss ! k) = 0" using assms k by simp
    obtain a s where ab: "collidePair (cur ! i) (ss ! k) = (a, s)"
      by (cases "collidePair (cur ! i) (ss ! k)")
    have s: "s = ss ! k" using collidePair_static[OF z, of "cur ! i"] ab by simp
    have ks: "set ks \<subseteq> {..<length ss}" using Cons.prems by simp
    show ?case
      using Cons.IH[OF ks, of cur] Cons.IH[OF ks, of "cur[i := a]"] ab s
      by simp
  qed
  then show ?thesis by (simp add: staticLoop_def subset_iff)
qed

lemma detectCollisions_static:
  assumes "\<forall>s \<in> set ss. invMass s = 0"
  shows "snd (detectCollisions (bs, ss)) = ss"
proof -
  have "snd (fold (\<lambda>i (cur, ss). staticLoop i (dynamicLoop i cur, ss)) is (cur, ss)) = ss" for "is" cur
  proof (induction "is" arbitrary: cur)
    case Nil
    show ?case by simp
  next
    case (Cons i "is")
    obtain c where c: "staticLoop i (dynamicLoop i cur, ss) = (c, ss)"
      using staticLoop_static[OF assms, of i "dynamicLoop i cur"]
      by (metis prod.collapse)
    show ?case using Cons.IH[of c] c by simp
  qed
  then show ?thesis by (simp add: detectCollisions_def)
qed

lemma fixedUpdate_static:
  "staticInvariant w \<Longrightarrow> staticBodies (fixedUpdate t w) = staticBodies w"
  by (simp add: fixedUpdate_def Let_def staticInvariant_def detectCollisions_static)

lemma update_static:
  assumes "staticInvariant w"
  shows "staticBodies (update dt w) = staticBodies w"
proof (rule update_invariant[where Q = "\<lambda>w'. staticBodies w' = staticBodies w"])
  fix t and w' :: world assume "staticBodies w' = staticBodies w"
  then have "staticInvariant w'" using assms by (simp add: staticInvariant_def)
  then show "staticBodies (fixedUpdate t w') = staticBodies w"
    using fixedUpdate_static \<open>staticBodies w' = staticBodies w\<close> by simp
qed simp_all

lemma fold_update_static:
  "staticInvariant w \<Longrightarrow> staticBodies (fold update dts w) = staticBodies w"
proof (induction dts arbitrary: w)
  case Nil
  show ?case by simp
next
  case (Cons dt dts)
  have "staticInvariant (update dt w)"
    using Cons.prems update_static[OF Cons.prems, of dt] by (simp add: staticInvariant_def)
  then show ?case using Cons.IH[of "update dt w"] update_static[OF Cons.prems, of dt] by simp
qed

lemma constructors_static:
  "isStatic (PhysicsBody opts) \<longrightarrow> invMass (PhysicsBody opts) = 0"
  "isStatic (StaticBody opts) \<and> invMass (StaticBody opts) = 0"
  "isStatic (GroundPlane opts n off) \<and> invMass (GroundPlane opts n off) = 0"
  "isStatic (BoxObstacle opts) \<and> invMass (BoxObstacle opts) = 0"
  "isStatic (PlanetBodyEntry opts) \<and> invMass (PlanetBodyEntry opts) = 0"
  by (simp_all add: PhysicsBody_def StaticBody_def GroundPlane_def BoxObstacle_def
      PlanetBodyEntry_def Let_def orDefault_def)

lemma addBody_static:
  "staticInvariant w \<Longrightarrow> (isStatic b \<longrightarrow> invMass b = 0) \<Longrightarrow> staticInvariant (addBody b w)"
  by (auto simp: staticInvariant_def addBody_def)

lemma static_operations:
  "isStatic b \<Longrightarrow> integrateVelocity t b = b"
  "isStatic b \<Longrightarrow> integrateForces t b = b"
  "isStatic b \<Longrightarrow> applyForce f b = b"
  "isStatic b \<Longrightarrow> applyImpulse f b = b"
  by (simp_all add: integrateVelocity_def integrateForces_def applyForce_def applyImpulse_def)

text \<open>
  C4: every static body registered in the world has \<^verbatim>\<open>invMass == 0\<close>, and no number of
  \<^verbatim>\<open>update()\<close> calls changes it. The invariant \<open>staticInvariant\<close> holds in a new world and
  is kept by \<^verbatim>\<open>addBody\<close> of a body from any constructor (a static one goes to the static
  list with inverse mass zero, any other to the dynamic list) and by \<^verbatim>\<open>update\<close>. Under it
  every fixed step and every sequence of updates returns the static list as it was, so
  neither position nor velocity of a static body changes: integration and force
  application skip a static body, gravity and the planet surface pass run over the
  dynamic list only, and collision resolution applies neither impulse nor positional
  correction to a body of inverse mass zero.
\<close>

theorem static_bodies_never_change:
  assumes "staticInvariant w"
  shows "staticBodies (fold update dts w) = staticBodies w \<and>
         staticBodies (fixedUpdate t w) = staticBodies w \<and>
         staticInvariant (update dt w) \<and>
         staticInvariant (addBody (PhysicsBody opts) w) \<and>
         staticInvariant (addBody (StaticBody opts) w) \<and>
         staticInvariant (addBody (GroundPlane opts n off) w) \<and>
         staticInvariant (addBody (BoxObstacle opts) w) \<and>
         staticInvariant (addBody (PlanetBodyEntry opts) w) \<and>
         staticInvariant (PhysicsWorld g fps) \<and>
         (\<forall>s \<in> set (staticBodies w).
            invMass s = 0 \<and> integrateVelocity t s = s \<and> integrateForces t s = s \<and>
            applyForce f s = s \<and> snd (resolveCollision a s) = s)"
proof -
  have u: "staticInvariant (update dt w)"
    using assms update_static[OF assms, of dt] by (simp add: staticInvariant_def)
  have i: "staticInvariant (PhysicsWorld g fps)"
    by (simp add: staticInvariant_def PhysicsWorld_def)
  have e: "\<forall>s \<in> set (staticBodies w).
            invMass s = 0 \<and> integrateVelocity t s = s \<and> integrateForces t s = s \<and>
            applyForce f s = s \<and> snd (resolveCollision a s) = s"
    using assms by (simp add: staticInvariant_def static_operations resolveCollision_static)
  show ?thesis
    using fold_update_static[OF assms] fixedUpdate_static[OF assms] u i e
      addBody_static[OF assms] constructors_static
    by simp
qed

lemma obstacleWorld_static: "staticBodies obstacleWorld = [BoxObstacle noOptions]"
proof -
  have "\<not> isStatic sunkBody"
    by (simp add: sunkBody_def PhysicsBody_def noOptions_def orDefault_def Let_def)
  then show ?thesis
    using constructors_static(4)[of noOptions]
    by (simp add: obstacleWorld_def addBody_def flatWorld_def PhysicsWorld_def)
qed

theorem static_bodies_never_change_witness:
  "staticInvariant obstacleWorld \<and>
   staticBodies (fold update [1 / 60, 1 / 60] obstacleWorld) = [BoxObstacle noOptions] \<and>
   invMass (BoxObstacle noOptions) = 0"
proof -
  have inv: "staticInvariant obstacleWorld"
    using constructors_static(4)[of noOptions]
    by (simp add: staticInvariant_def obstacleWorld_static)
  show ?thesis
    using inv static_bodies_never_change[OF inv, of "[1 / 60, 1 / 60]"]
    by (simp add: obstacleWorld_static)
qed

subsection \<open>C8: collider and body position\<close>

lemma sunkBody_record:
  "sunkBody = \<lparr>position = Vector3 0 (-1) 0, velocity = Vector3 0 (-2) 0,
      acceleration = Vector3 0 0 0, forces = Vector3 0 0 0, mass = 1, invMass = 1,
      isStatic = False, restitution = 1 / 10, friction = 1 / 10, onGround = False,
      usesGravity = True, entity = None, maxFallSpeed = 30, stabilizeThreshold = 1 / 20,
      radius = Some 1, halfExtents = None,
      collider = SphereCollider (Vector3 0 (-1) 0) 1, bodyClass = PhysicsBodyClass\<rparr>"
  by (simp add: sunkBody_def PhysicsBody_def noOptions_def orDefault_def Let_def zeroV_def)

lemma sunkWorld_record:
  "sunkWorld = \<lparr>bodies = [sunkBody], staticBodies = [], gravity = Vector3 0 (-20) 0,
      accumulator = 0, fixedTimeStep = 1 / 120, groundThreshold = 3 / 20,
      planetBody = None, maxSubSteps = 3\<rparr>"
  by (simp add: sunkWorld_def addBody_def flatWorld_def PhysicsWorld_def sunkBody_record)

lemma sunk_integrateVelocity:
  "integrateVelocity (1 / 120) sunkBody =
     sunkBody\<lparr>position := Vector3 0 (- (61 / 60)) 0,
               collider := SphereCollider (Vector3 0 (- (61 / 60)) 0) 1\<rparr>"
  by (simp add: sunkBody_record integrateVelocity_def stabilize_def syncCollider_def
      vadd_def multiplyScalar_def Let_def)

lemma sunk_gravityStep:
  "gravityStep sunkWorld (1 / 120)
     (sunkBody\<lparr>position := Vector3 0 (- (61 / 60)) 0,
               collider := SphereCollider (Vector3 0 (- (61 / 60)) 0) 1\<rparr>) =
   sunkBody\<lparr>position := Vector3 0 (- (61 / 60)) 0,
             collider := SphereCollider (Vector3 0 (- (61 / 60)) 0) 1,
             acceleration := Vector3 0 (-20) 0,
             velocity := Vector3 0 (- (13 / 6)) 0\<rparr>"
  by (simp add: sunkBody_record sunkWorld_record gravityStep_def applyForce_def
      integrateForces_def vadd_def multiplyScalar_def Let_def)

lemma sunk_checkWorldBounds:
  "checkWorldBounds sunkWorld
     (sunkBody\<lparr>position := Vector3 0 (- (61 / 60)) 0,
             collider := SphereCollider (Vector3 0 (- (61 / 60)) 0) 1,
             acceleration := Vector3 0 (-20) 0,
             velocity := Vector3 0 (- (13 / 6)) 0\<rparr>) =
   sunkBody\<lparr>position := Vector3 0 (1 / 20) 0,
             collider := SphereCollider (Vector3 0 (- (61 / 60)) 0) 1,
             acceleration := Vector3 0 (-20) 0,
             velocity := Vector3 0 0 0,
             onGround := True\<rparr>"
  by (simp add: sunkBody_record sunkWorld_record checkWorldBounds_def Let_def)

lemma sunk_fixedUpdate:
  "bodies (fixedUpdate (1 / 120) sunkWorld) =
   [sunkBody\<lparr>position := Vector3 0 (1 / 20) 0,
             collider := SphereCollider (Vector3 0 (- (61 / 60)) 0) 1,
             acceleration := Vector3 0 (-20) 0,
             velocity := Vector3 0 0 0,
             onGround := True\<rparr>]"
proof -
  have p: "planetBody sunkWorld = None" "bodies sunkWorld = [sunkBody]" "staticBodies sunkWorld = []"
    by (simp_all add: sunkWorld_record)
  show ?thesis
    unfolding fixedUpdate_def Let_def p
    by (simp add: sunk_integrateVelocity sunk_gravityStep detectCollisions_single
        sunk_checkWorldBounds)
qed

text \<open>
  C8 claims that the collider's centre equals the body's position at the end of every
  fixed sub-step, the flat-world bounds clamp included. \<^verbatim>\<open>checkWorldBounds\<close> writes
  \<^verbatim>\<open>body.position.y = 0.05\<close> and never calls \<^verbatim>\<open>collider.updatePosition\<close>, unlike the emergency
  correction, the surface safety check and the positional correction of
  \<^verbatim>\<open>resolveCollision\<close>. For the sphere that starts in step at height -1 and falls at speed
  2 in the flat world, one fixed step of 1/120 ends with the body at height 1/20 and its
  collider at height -61/60, where velocity integration left it.
\<close>

theorem ground_clamp_leaves_collider_behind:
  "cposition (collider sunkBody) = position sunkBody \<and>
   planetBody sunkWorld = None \<and>
   position (hd (bodies (fixedUpdate (1 / 120) sunkWorld))) = Vector3 0 (1 / 20) 0 \<and>
   cposition (collider (hd (bodies (fixedUpdate (1 / 120) sunkWorld)))) = Vector3 0 (- (61 / 60)) 0"
  by (simp add: sunk_fixedUpdate) (simp add: sunkBody_record sunkWorld_record)

subsection \<open>C1: the safety teleports of the planet field\<close>

lemma lengthSq_unit: "vlength u = 1 \<Longrightarrow> lengthSq u = 1"
  by (simp add: vlength_def)

lemma dot_self: "dot u u = lengthSq u"
  by (simp add: dot_def lengthSq_def)

lemma dot_vsub_scaled: "dot (vsub v (multiplyScalar u s)) w = dot v w - s * dot u w"
  by (simp add: dot_def vsub_def multiplyScalar_def algebra_simps)

lemma dot_multiplyScalar_left: "dot (multiplyScalar v k) w = k * dot v w"
  by (simp add: dot_def multiplyScalar_def algebra_simps)

lemma dot_multiplyScalar_right: "dot v (multiplyScalar w k) = k * dot v w"
  by (simp add: dot_def multiplyScalar_def algebra_simps)

lemma multiplyScalar_twice: "multiplyScalar (multiplyScalar v a) b = multiplyScalar v (a * b)"
  by (simp add: multiplyScalar_def algebra_simps)

lemma multiplyScalar_one [simp]: "multiplyScalar v 1 = v"
  by (cases v) (simp add: multiplyScalar_def)

lemma normalize_unit_scaled:
  assumes "vlength u = 1" "0 < k"
  shows "normalizeV (multiplyScalar u k) = u"
proof -
  have "vlength (multiplyScalar u k) = k"
    using assms by (simp add: vlength_multiplyScalar)
  then show ?thesis
    using assms(2)
    by (simp add: normalizeV_def divideScalar_def orElse_def multiplyScalar_twice)
qed

lemma vsub_vadd_cancel: "vsub (vadd c v) c = v"
  by (cases v) (simp add: vsub_def vadd_def)

lemma distanceTo_offset: "distanceTo (vadd c (multiplyScalar u k)) c = \<bar>k\<bar> * vlength u"
  by (simp add: distanceTo_vlength vsub_vadd_cancel vlength_multiplyScalar)

lemma position_syncCollider [simp]: "position (syncCollider b) = position b"
  by (simp add: syncCollider_def)

lemma collider_syncCollider [simp]:
  "cposition (collider (syncCollider b)) = position b"
  by (cases "collider b") (simp_all add: syncCollider_def)

lemma emergencyCorrection_inside:
  assumes "minSafeDistance p = planetRadius p * 0.9"
    and "position b \<noteq> center p"
    and "distanceTo (position b) (center p) < minSafeDistance p"
    and "0 \<le> radiusOr b 0.5"
  shows "distanceTo (position (emergencyCorrection p b)) (center p)
           = minSafeDistance p + radiusOr b 0.5"
    and "velocity (emergencyCorrection p b) = velocity b"
    and "cposition (collider (emergencyCorrection p b)) = position (emergencyCorrection p b)"
    and "normalizeV (vsub (position (emergencyCorrection p b)) (center p))
           = normalizeV (vsub (position b) (center p))"
proof -
  let ?f = "vsub (position b) (center p)"
  let ?k = "minSafeDistance p + radiusOr b 0.5"
  have nz: "?f \<noteq> Vector3 0 0 0" using assms(2) by (simp add: vsub_eq_zero_iff)
  have u: "vlength (normalizeV ?f) = 1" by (rule vlength_normalize[OF nz])
  have d: "vlength ?f < minSafeDistance p"
    using assms(3) by (simp add: distanceTo_vlength)
  have nn: "0 \<le> vlength ?f" by simp
  have kpos: "0 < ?k"
    using assms(3,4) nn unfolding distanceTo_vlength by linarith
  have e: "emergencyCorrection p b =
      syncCollider (b\<lparr>position := vadd (center p) (multiplyScalar (normalizeV ?f) ?k)\<rparr>)"
    unfolding emergencyCorrection_def Let_def assms(1)[symmetric] using d by simp
  show "distanceTo (position (emergencyCorrection p b)) (center p) = ?k"
    using kpos u by (simp add: e distanceTo_offset)
  show "velocity (emergencyCorrection p b) = velocity b"
    by (simp add: e)
  show "cposition (collider (emergencyCorrection p b)) = position (emergencyCorrection p b)"
    by (simp add: e)
  show "normalizeV (vsub (position (emergencyCorrection p b)) (center p)) = normalizeV ?f"
    using normalize_unit_scaled[OF u kpos] by (simp add: e vsub_vadd_cancel)
qed


lemma setSurfaceNormal_frame [simp]:
  "position (setSurfaceNormal n b) = position b"
  "velocity (setSurfaceNormal n b) = velocity b"
  "collider (setSurfaceNormal n b) = collider b"
  "radius (setSurfaceNormal n b) = radius b"
  "mass (setSurfaceNormal n b) = mass b"
  "isStatic (setSurfaceNormal n b) = isStatic b"
  by (simp_all add: setSurfaceNormal_def split: option.splits)

lemma applyForce_frame [simp]:
  "position (applyForce f b) = position b"
  "velocity (applyForce f b) = velocity b"
  "collider (applyForce f b) = collider b"
  "radius (applyForce f b) = radius b"
  "usesGravity (applyForce f b) = usesGravity b"
  "onGround (applyForce f b) = onGround b"
  by (simp_all add: applyForce_def)

lemma groundState_frame [simp]:
  "position (groundState r b) = position b"
  "collider (groundState r b) = collider b"
  by (simp_all add: groundState_def Let_def)

lemma groundState_outward:
  assumes "0 \<le> dot (velocity b) u" "0 < d"
  shows "0 \<le> dot (velocity (groundState (divideScalar u d) b)) u"
proof -
  have "0 \<le> dot (velocity b) u / d"
    using assms by simp
  then have n: "\<not> dot (velocity b) (divideScalar u d) < 0"
    by (simp add: divideScalar_def dot_multiplyScalar_right not_less)
  show ?thesis
    using assms(1) n
    by (simp add: groundState_def Let_def dot_multiplyScalar_left)
qed

lemma radiusOr_cong: "radius b' = radius b \<Longrightarrow> radiusOr b' d = radiusOr b d"
  by (simp add: radiusOr_def)

lemma surfaceSafety_result:
  assumes "f \<noteq> Vector3 0 0 0" "0 < minSafeDistance p + radiusOr b 0.5"
  shows "snd (surfaceSafety p f b) = normalizeV f"
    and "position (fst (surfaceSafety p f b)) =
           vadd (center p) (multiplyScalar (normalizeV f) (minSafeDistance p + radiusOr b 0.5))"
    and "cposition (collider (fst (surfaceSafety p f b))) = position (fst (surfaceSafety p f b))"
    and "0 \<le> dot (velocity (fst (surfaceSafety p f b))) (normalizeV f)"
    and "radius (fst (surfaceSafety p f b)) = radius b"
proof -
  have u: "vlength (normalizeV f) = 1" by (rule vlength_normalize[OF assms(1)])
  have n: "normalizeV (multiplyScalar (normalizeV f) (minSafeDistance p + radiusOr b 0.5)) = normalizeV f"
    by (rule normalize_unit_scaled[OF u assms(2)])
  have l: "dot (normalizeV f) (normalizeV f) = 1"
    using u by (simp add: dot_self lengthSq_unit)
  show "snd (surfaceSafety p f b) = normalizeV f"
    using n by (simp add: surfaceSafety_def Let_def)
  show "position (fst (surfaceSafety p f b)) =
           vadd (center p) (multiplyScalar (normalizeV f) (minSafeDistance p + radiusOr b 0.5))"
    by (simp add: surfaceSafety_def Let_def)
  show "cposition (collider (fst (surfaceSafety p f b))) = position (fst (surfaceSafety p f b))"
    by (cases "collider b") (simp_all add: surfaceSafety_def Let_def syncCollider_def)
  show "0 \<le> dot (velocity (fst (surfaceSafety p f b))) (normalizeV f)"
    using n l by (simp add: surfaceSafety_def Let_def dot_vsub_scaled)
  show "radius (fst (surfaceSafety p f b)) = radius b"
    by (simp add: surfaceSafety_def Let_def syncCollider_def)
qed

lemma surface_inside:
  assumes "usesGravity b"
    and "position b \<noteq> center p"
    and "distanceTo (position b) (center p) < minSafeDistance p"
    and "epsilon p < minSafeDistance p"
    and "0 \<le> radiusOr b 0.5"
  shows "distanceTo (position (handlePlanetSurfaceInteraction p t b)) (center p)
           = minSafeDistance p + radiusOr b 0.5"
    and "0 \<le> radialVelocity p (handlePlanetSurfaceInteraction p t b)"
    and "cposition (collider (handlePlanetSurfaceInteraction p t b))
           = position (handlePlanetSurfaceInteraction p t b)"
proof -
  let ?f = "vsub (position b) (center p)"
  let ?k = "minSafeDistance p + radiusOr b 0.5"
  let ?d = "max (vlength ?f) (epsilon p)"
  let ?u = "normalizeV ?f"
  obtain b1 where b1: "b1 = fst (surfaceSafety p ?f b)" by simp
  have nz: "?f \<noteq> Vector3 0 0 0" using assms(2) by (simp add: vsub_eq_zero_iff)
  have nn: "0 \<le> vlength ?f" by simp
  have lpos: "0 < vlength ?f" using nz nn by (simp add: vlength_eq_0_iff less_le)
  have dpos: "0 < ?d" using lpos by (simp add: max_def)
  have kpos: "0 < ?k" using assms(3,5) nn unfolding distanceTo_vlength by linarith
  have inside: "?d < minSafeDistance p"
    using assms(3,4) by (simp add: distanceTo_vlength)
  have inside': "(?d < minSafeDistance p) = True"
    using inside by simp
  have u: "vlength ?u = 1" by (rule vlength_normalize[OF nz])
  have ss: "surfaceSafety p ?f b = (b1, ?u)"
    using surfaceSafety_result(1)[OF nz kpos] b1 by (metis prod.collapse)
  have pos1: "position b1 = vadd (center p) (multiplyScalar ?u ?k)"
    unfolding b1 by (rule surfaceSafety_result(2)[OF nz kpos])
  have col1: "cposition (collider b1) = position b1"
    unfolding b1 by (rule surfaceSafety_result(3)[OF nz kpos])
  have vel1: "0 \<le> dot (velocity b1) ?u"
    unfolding b1 by (rule surfaceSafety_result(4)[OF nz kpos])
  obtain b4 where h: "handlePlanetSurfaceInteraction p t b = groundState (divideScalar ?u ?d) b4"
    and p4: "position b4 = position b1" and c4: "collider b4 = collider b1"
    and v4: "velocity b4 = velocity b1"
    unfolding handlePlanetSurfaceInteraction_def Let_def inside' ss
    using assms(1) by simp
  have posH: "position (handlePlanetSurfaceInteraction p t b) = vadd (center p) (multiplyScalar ?u ?k)"
    by (simp add: h p4 pos1)
  show "distanceTo (position (handlePlanetSurfaceInteraction p t b)) (center p) = ?k"
    using kpos u by (simp add: posH distanceTo_offset)
  show "cposition (collider (handlePlanetSurfaceInteraction p t b))
           = position (handlePlanetSurfaceInteraction p t b)"
    by (simp add: h p4 c4 col1)
  have g: "0 \<le> dot (velocity (groundState (divideScalar ?u ?d) b4)) ?u"
    by (rule groundState_outward) (simp_all add: v4 vel1 dpos)
  have pe: "vsub (position (handlePlanetSurfaceInteraction p t b)) (center p)
      = multiplyScalar ?u ?k"
    by (simp add: posH vsub_vadd_cancel)
  have ne: "normalizeV (vsub (position (handlePlanetSurfaceInteraction p t b)) (center p)) = ?u"
    unfolding pe by (rule normalize_unit_scaled[OF u kpos])
  show "0 \<le> radialVelocity p (handlePlanetSurfaceInteraction p t b)"
    unfolding radialVelocity_def ne using g unfolding h .
qed

lemma surface_outside:
  assumes "\<not> max (distanceTo (position b) (center p)) (epsilon p) < minSafeDistance p"
  shows "position (handlePlanetSurfaceInteraction p t b) = position b"
proof -
  have ni: "\<not> max (vlength (vsub (position b) (center p))) (epsilon p) < minSafeDistance p"
    using assms unfolding distanceTo_vlength .
  show ?thesis
    unfolding handlePlanetSurfaceInteraction_def Let_def using ni
    by (simp del: max_less_iff_conj)
qed


lemma planet_frames [simp]:
  "usesGravity (emergencyCorrection p b) = usesGravity b"
  "radius (emergencyCorrection p b) = radius b"
  "usesGravity (integrateVelocity t b) = usesGravity b"
  "radius (integrateVelocity t b) = radius b"
  "usesGravity (applyGravitationalForce p b) = usesGravity b"
  "radius (applyGravitationalForce p b) = radius b"
  "position (applyGravitationalForce p b) = position b"
  "usesGravity (integrateForces t b) = usesGravity b"
  "radius (integrateForces t b) = radius b"
  "position (integrateForces t b) = position b"
  by (simp_all add: emergencyCorrection_def integrateVelocity_def stabilize_def
      syncCollider_def applyGravitationalForce_def integrateForces_def Let_def)

lemma planetPhases_safe:
  assumes "usesGravity b"
    and "epsilon p < minSafeDistance p"
    and "0 \<le> radiusOr b 0.5"
    and "position (integrateVelocity t (emergencyCorrection p b)) \<noteq> center p"
  shows "minSafeDistance p \<le> distanceTo (position (planetPhases p t b)) (center p)"
proof -
  define b3 where "b3 = integrateForces t (applyGravitationalForce p
                          (integrateVelocity t (emergencyCorrection p b)))"
  have g: "usesGravity b3" using assms(1) by (simp add: b3_def)
  have r: "radiusOr b3 0.5 = radiusOr b 0.5" by (simp add: b3_def radiusOr_def)
  have q: "position b3 \<noteq> center p" using assms(4) by (simp add: b3_def)
  have pp: "planetPhases p t b = handlePlanetSurfaceInteraction p t b3"
    by (simp add: planetPhases_def b3_def)
  show ?thesis
  proof (cases "distanceTo (position b3) (center p) < minSafeDistance p")
    case True
    have "distanceTo (position (handlePlanetSurfaceInteraction p t b3)) (center p)
           = minSafeDistance p + radiusOr b3 0.5"
      using surface_inside(1)[OF g q True assms(2)] assms(3) r by simp
    then show ?thesis using assms(3) r by (simp add: pp)
  next
    case False
    then have "\<not> max (distanceTo (position b3) (center p)) (epsilon p) < minSafeDistance p"
      by simp
    then have "position (handlePlanetSurfaceInteraction p t b3) = position b3"
      by (rule surface_outside)
    then show ?thesis using False by (simp add: pp)
  qed
qed

lemma fixedUpdate_planet:
  assumes "planetBody w = Some p"
  shows "fixedUpdate t w =
     w\<lparr>bodies := fst (detectCollisions (map (planetPhases p t) (bodies w), staticBodies w)),
       staticBodies := snd (detectCollisions (map (planetPhases p t) (bodies w), staticBodies w))\<rparr>"
proof -
  have "handlePlanetSurfaceInteraction p t \<circ> gravityStep w t \<circ> integrateVelocity t
          \<circ> emergencyCorrection p = planetPhases p t"
    using assms
    by (intro ext) (simp add: planetPhases_def gravityStep_def applyGravitationalForce_def)
  then show ?thesis using assms by (simp add: fixedUpdate_def Let_def)
qed

lemma inwardSpeed_zero_iff: "inwardSpeed p b = 0 \<longleftrightarrow> 0 \<le> radialVelocity p b"
  by (simp add: inwardSpeed_def max_def)

lemma planet20_record:
  "planet20 = \<lparr>center = Vector3 0 0 0, planetRadius = 20, gravityStrength = 25,
      surfaceOffset = 1 / 5, snapForce = 1 / 2, planetGroundThreshold = 3 / 10,
      epsilon = 1 / 1000000, minSafeDistance = 18\<rparr>"
  by (simp add: planet20_def PlanetBody_def noOptions_def orDefault_def orElse_def Let_def)

lemma deepBody_record:
  "deepBody = \<lparr>position = Vector3 17 0 0, velocity = Vector3 0 0 0,
      acceleration = Vector3 0 0 0, forces = Vector3 0 0 0, mass = 1, invMass = 1,
      isStatic = False, restitution = 1 / 10, friction = 1 / 10, onGround = False,
      usesGravity = True, entity = None, maxFallSpeed = 30, stabilizeThreshold = 1 / 20,
      radius = Some 1, halfExtents = None,
      collider = SphereCollider (Vector3 17 0 0) 1, bodyClass = PhysicsBodyClass\<rparr>"
  by (simp add: deepBody_def PhysicsBody_def noOptions_def orDefault_def Let_def zeroV_def)

lemma planetEntry20_facts: "isStatic planetEntry20" "isPlanet planetEntry20"
  by (simp_all add: planetEntry20_def PlanetBodyEntry_def StaticBody_def PhysicsBody_def
      isPlanet_def noOptions_def orDefault_def Let_def)

lemma planetWorld_facts:
  "planetBody planetWorld = Some planet20" "bodies planetWorld = [deepBody]"
  "staticBodies planetWorld = [planetEntry20]" "accumulator planetWorld = 0"
  "fixedTimeStep planetWorld = 1 / 120" "maxSubSteps planetWorld = 3"
  using planetEntry20_facts(1)
  by (simp_all add: planetWorld_def setPlanetBody_def addBody_def PhysicsWorld_def deepBody_record)

lemma deep_emergency:
  "emergencyCorrection planet20 deepBody =
     deepBody\<lparr>position := Vector3 19 0 0, collider := SphereCollider (Vector3 19 0 0) 1\<rparr>"
  by (simp add: deepBody_record planet20_record emergencyCorrection_def syncCollider_def
      vsub_def vadd_def multiplyScalar_def normalizeV_def divideScalar_def orElse_def
      radiusOr_def Let_def)

lemma deep_integrateVelocity:
  "integrateVelocity (1 / 120)
     (deepBody\<lparr>position := Vector3 19 0 0, collider := SphereCollider (Vector3 19 0 0) 1\<rparr>) =
   deepBody\<lparr>position := Vector3 19 0 0, collider := SphereCollider (Vector3 19 0 0) 1\<rparr>"
  by (simp add: deepBody_record integrateVelocity_def stabilize_def syncCollider_def
      vadd_def multiplyScalar_def Let_def)

lemma sqrt_361: "sqrt 361 = 19"
proof -
  have "sqrt ((19::real) * 19) = \<bar>19\<bar>" by (rule real_sqrt_abs2)
  then show ?thesis by simp
qed

lemma deep_gravity:
  "integrateForces (1 / 120) (applyGravitationalForce planet20
     (deepBody\<lparr>position := Vector3 19 0 0, collider := SphereCollider (Vector3 19 0 0) 1\<rparr>)) =
   deepBody\<lparr>position := Vector3 19 0 0, collider := SphereCollider (Vector3 19 0 0) 1,
             acceleration := Vector3 (-25) 0 0, velocity := Vector3 (- (5 / 24)) 0 0\<rparr>"
  by (simp add: deepBody_record planet20_record applyGravitationalForce_def applyForce_def
      integrateForces_def vsub_def vadd_def multiplyScalar_def divideScalar_def lengthSq_def
      sqrt_361 Let_def)

lemma deep_surface:
  "handlePlanetSurfaceInteraction planet20 (1 / 120)
     (deepBody\<lparr>position := Vector3 19 0 0, collider := SphereCollider (Vector3 19 0 0) 1,
             acceleration := Vector3 (-25) 0 0, velocity := Vector3 (- (5 / 24)) 0 0\<rparr>) =
   deepBody\<lparr>position := Vector3 19 0 0, collider := SphereCollider (Vector3 19 0 0) 1,
             acceleration := Vector3 (-25) 0 0, velocity := Vector3 (- (5 / 24)) 0 0,
             forces := Vector3 (11 / 10) 0 0\<rparr>"
  by (simp add: deepBody_record planet20_record handlePlanetSurfaceInteraction_def
      setSurfaceNormal_def entityJumping_def groundState_def applyForce_def radiusOr_def
      orElse_def vsub_def vadd_def multiplyScalar_def divideScalar_def Let_def)

lemma deep_planetPhases:
  "planetPhases planet20 (1 / 120) deepBody =
   deepBody\<lparr>position := Vector3 19 0 0, collider := SphereCollider (Vector3 19 0 0) 1,
             acceleration := Vector3 (-25) 0 0, velocity := Vector3 (- (5 / 24)) 0 0,
             forces := Vector3 (11 / 10) 0 0\<rparr>"
  by (simp add: planetPhases_def deep_emergency deep_integrateVelocity deep_gravity deep_surface)

lemma detectCollisions_planet_only:
  "isPlanet s \<Longrightarrow> detectCollisions ([b], [s]) = ([b], [s])"
  by (simp add: detectCollisions_def dynamicLoop_def staticLoop_def)

lemma deep_fixedUpdate:
  "bodies (fixedUpdate (1 / 120) planetWorld) = [planetPhases planet20 (1 / 120) deepBody]"
  by (simp add: fixedUpdate_planet[OF planetWorld_facts(1)] planetWorld_facts
      detectCollisions_planet_only[OF planetEntry20_facts(2)])

lemma deep_update:
  "bodies (update (1 / 120) planetWorld) = [planetPhases planet20 (1 / 120) deepBody]"
proof -
  define w1 where "w1 = planetWorld\<lparr>accumulator := accumulator planetWorld + min (1 / 120) 0.1\<rparr>"
  have a1: "accumulator w1 = 1 / 120" "fixedTimeStep w1 = 1 / 120" "maxSubSteps w1 = 3"
    by (simp_all add: w1_def planetWorld_facts)
  have s1: "subStepLoop 0 w1 =
      subStepLoop (Suc 0) ((fixedUpdate (fixedTimeStep w1) w1)\<lparr>accumulator := accumulator w1 - fixedTimeStep w1\<rparr>)"
    by (rule subStepLoop_step) (simp_all add: a1)
  have s2: "subStepLoop (Suc 0) ((fixedUpdate (fixedTimeStep w1) w1)\<lparr>accumulator := accumulator w1 - fixedTimeStep w1\<rparr>)
      = (Suc 0, (fixedUpdate (fixedTimeStep w1) w1)\<lparr>accumulator := accumulator w1 - fixedTimeStep w1\<rparr>)"
    by (rule subStepLoop_stop) (simp add: a1)
  have u: "update (1 / 120) planetWorld =
      (fixedUpdate (fixedTimeStep w1) w1)\<lparr>accumulator := accumulator w1 - fixedTimeStep w1\<rparr>"
    unfolding update_def Let_def w1_def[symmetric] s1 s2 by (simp add: a1)
  show ?thesis
    unfolding u by (simp add: w1_def fixedUpdate_accumulator planetWorld_facts deep_fixedUpdate)
qed

text \<open>
  C1 claims that a body placed at \<^verbatim>\<open>minSafeDistance - 1\<close> from the planet centre ends one
  \<^verbatim>\<open>update()\<close> call at least \<^verbatim>\<open>minSafeDistance\<close> from the centre with no inward velocity.
  For the planet of radius 20 and a resting unit sphere 17 from its centre, one update of
  1/120 s runs one fixed step: the emergency correction moves the body to distance 19 and
  leaves its velocity alone, gravity then accelerates it towards the centre, the surface
  pass finds it outside \<^verbatim>\<open>minSafeDistance\<close> and not grounded, and the call ends with an
  inward speed of 5/24.
\<close>

theorem emergency_teleport_counterexample:
  "planetBody planetWorld = Some planet20 \<and> bodies planetWorld = [deepBody] \<and>
   distanceTo (position deepBody) (center planet20) = minSafeDistance planet20 - 1 \<and>
   distanceTo (position (hd (bodies (update (1 / 120) planetWorld)))) (center planet20) = 19 \<and>
   inwardSpeed planet20 (hd (bodies (update (1 / 120) planetWorld))) = 5 / 24"
  by (simp add: planetWorld_facts deep_update deep_planetPhases)
     (simp add: deepBody_record planet20_record distanceTo_vlength vsub_def inwardSpeed_def
        radialVelocity_def normalizeV_def divideScalar_def multiplyScalar_def orElse_def dot_def)

text \<open>
  C1 as amended. Let the planet field have \<^verbatim>\<open>minSafeDistance = 0.9 * radius\<close> above its
  \<^verbatim>\<open>epsilon\<close> (as the constructor sets them), and let a dynamic body whose \<^verbatim>\<open>radius || 0.5\<close>
  is not negative lie inside \<^verbatim>\<open>minSafeDistance\<close> but not at the centre, such as at
  \<^verbatim>\<open>minSafeDistance - 1\<close>. Then
  \<^item> the emergency correction that opens every fixed sub-step puts the body at distance
    \<^verbatim>\<open>minSafeDistance + (radius || 0.5)\<close> from the centre, with its collider in step and its
    velocity unchanged;
  \<^item> the safety check of the surface pass, run on such a body that uses gravity, puts it
    at that same distance and leaves it with no inward velocity component;
  \<^item> a body that uses gravity and is not at the centre after velocity integration
    leaves the four planet phases of the sub-step at least \<^verbatim>\<open>minSafeDistance\<close> from the
    centre; the sub-step then only runs the collision pass on the results.
  Nothing is claimed about the inward velocity at the end of the call: gravity of the
  same sub-step may leave one.
\<close>

theorem planet_safety_teleport:
  assumes "minSafeDistance p = planetRadius p * 0.9"
    and "epsilon p < minSafeDistance p"
    and "position b \<noteq> center p"
    and "distanceTo (position b) (center p) < minSafeDistance p"
    and "0 \<le> radiusOr b 0.5"
  shows "distanceTo (position (emergencyCorrection p b)) (center p)
           = minSafeDistance p + radiusOr b 0.5 \<and>
         velocity (emergencyCorrection p b) = velocity b \<and>
         cposition (collider (emergencyCorrection p b)) = position (emergencyCorrection p b) \<and>
         (usesGravity b \<longrightarrow>
            distanceTo (position (handlePlanetSurfaceInteraction p t b)) (center p)
              = minSafeDistance p + radiusOr b 0.5 \<and>
            inwardSpeed p (handlePlanetSurfaceInteraction p t b) = 0) \<and>
         (usesGravity b \<and> position (integrateVelocity t (emergencyCorrection p b)) \<noteq> center p \<longrightarrow>
            minSafeDistance p \<le> distanceTo (position (planetPhases p t b)) (center p)) \<and>
         (planetBody w = Some p \<longrightarrow>
            bodies (fixedUpdate t w) =
              fst (detectCollisions (map (planetPhases p t) (bodies w), staticBodies w)))"
  using emergencyCorrection_inside(1,2,3)[OF assms(1,3,4,5)]
    surface_inside(1,2)[OF _ assms(3,4,2,5), of t]
    planetPhases_safe[OF _ assms(2,5), of t]
    fixedUpdate_planet[of w p t]
  by (simp add: inwardSpeed_zero_iff)

theorem planet_safety_teleport_witness:
  "distanceTo (position deepBody) (center planet20) < minSafeDistance planet20 \<and>
   distanceTo (position (emergencyCorrection planet20 deepBody)) (center planet20) = 19 \<and>
   velocity (emergencyCorrection planet20 deepBody) = Vector3 0 0 0 \<and>
   distanceTo (position (handlePlanetSurfaceInteraction planet20 (1 / 120) deepBody))
     (center planet20) = 19 \<and>
   inwardSpeed planet20 (handlePlanetSurfaceInteraction planet20 (1 / 120) deepBody) = 0 \<and>
   18 \<le> distanceTo (position (planetPhases planet20 (1 / 120) deepBody)) (center planet20) \<and>
   bodies (fixedUpdate (1 / 120) planetWorld) =
     fst (detectCollisions (map (planetPhases planet20 (1 / 120)) [deepBody], [planetEntry20]))"
proof -
  have h: "minSafeDistance planet20 = planetRadius planet20 * 0.9"
    "epsilon planet20 < minSafeDistance planet20"
    "position deepBody \<noteq> center planet20"
    "distanceTo (position deepBody) (center planet20) < minSafeDistance planet20"
    "0 \<le> radiusOr deepBody 0.5"
    by (simp_all add: planet20_record deepBody_record distanceTo_vlength vsub_def radiusOr_def
        orElse_def)
  have g: "usesGravity deepBody" "velocity deepBody = Vector3 0 0 0"
    "radiusOr deepBody 0.5 = 1" "minSafeDistance planet20 = 18"
    "position (integrateVelocity (1 / 120) (emergencyCorrection planet20 deepBody)) \<noteq> center planet20"
    by (simp_all add: deep_emergency deep_integrateVelocity)
       (simp_all add: planet20_record deepBody_record radiusOr_def orElse_def)
  show ?thesis
    using planet_safety_teleport[OF h, of "1 / 120" planetWorld] h(4) g
    by (simp add: planetWorld_facts)
qed

subsection \<open>C3: the separation test against the normal of a box\<close>

lemma box_simps:
  "collider restingBox = BoxCollider (Vector3 (3 / 2) 0 0) (Vector3 1 1 1)"
  "collider approachingBox = BoxCollider (Vector3 0 0 0) (Vector3 1 1 1)"
  "collider recedingBox = BoxCollider (Vector3 0 0 0) (Vector3 1 1 1)"
  "bodyClass approachingBox = PhysicsBodyClass" "bodyClass recedingBox = PhysicsBodyClass"
  "position restingBox = Vector3 (3 / 2) 0 0" "position approachingBox = Vector3 0 0 0"
  "position recedingBox = Vector3 0 0 0"
  "velocity restingBox = Vector3 0 0 0" "velocity approachingBox = Vector3 1 0 0"
  "velocity recedingBox = Vector3 (-1) 0 0"
  "invMass restingBox = 1" "invMass approachingBox = 1" "invMass recedingBox = 1"
  "restitution restingBox = 1 / 10" "restitution approachingBox = 1 / 10"
  "restitution recedingBox = 1 / 10"
  by (simp_all add: restingBox_def approachingBox_def recedingBox_def PhysicsBody_def
      noOptions_def orDefault_def Let_def zeroV_def)

lemma boxes_intersect:
  "intersects (BoxCollider (Vector3 0 0 0) (Vector3 1 1 1))
              (BoxCollider (Vector3 (3 / 2) 0 0) (Vector3 1 1 1))"
  by (simp add: intersectsBox_def boxMin_def boxMax_def vsub_def vadd_def)

lemma boxes_info:
  "boxBoxInfo (Vector3 0 0 0) (Vector3 1 1 1) (Vector3 (3 / 2) 0 0) (Vector3 1 1 1) =
     Some \<lparr>normal = Vector3 1 0 0, depth = 1 / 2, point = Vector3 (3 / 4) 0 0\<rparr>"
proof -
  have o: "overlapOn (Vector3 0 0 0) (Vector3 1 1 1) (Vector3 (3 / 2) 0 0) (Vector3 1 1 1) (Vector3 1 0 0) = 1 / 2"
    "overlapOn (Vector3 0 0 0) (Vector3 1 1 1) (Vector3 (3 / 2) 0 0) (Vector3 1 1 1) (Vector3 0 1 0) = 2"
    "overlapOn (Vector3 0 0 0) (Vector3 1 1 1) (Vector3 (3 / 2) 0 0) (Vector3 1 1 1) (Vector3 0 0 1) = 2"
    by (simp_all add: overlapOn_def projectOntoAxis_def dot_def Let_def)
  show ?thesis
    unfolding boxBoxInfo_def axisLoop_worldAxes o using boxes_intersect
    by (simp add: orientAxis_def vsub_def dot_def vadd_def multiplyScalar_def del: intersects.simps)
qed

lemma boxes_pairInfo:
  "pairInfo approachingBox restingBox =
     Some \<lparr>normal = Vector3 1 0 0, depth = 1 / 2, point = Vector3 (3 / 4) 0 0\<rparr>"
  "pairInfo recedingBox restingBox =
     Some \<lparr>normal = Vector3 1 0 0, depth = 1 / 2, point = Vector3 (3 / 4) 0 0\<rparr>"
  by (simp_all add: pairInfo_def bodyCheckCollision_def box_simps boxes_info)

lemma boxes_checkCollision:
  "checkCollision approachingBox restingBox" "checkCollision recedingBox restingBox"
  using boxes_intersect by (simp_all add: checkCollision_def box_simps del: intersects.simps)

text \<open>
  C3 claims that \<^verbatim>\<open>resolveCollision\<close> leaves a pair alone when the bodies are separating,
  which it reads off a positive relative velocity of A with respect to B along the
  normal, and applies the impulse otherwise; the source says so itself
  (\<^verbatim>\<open>// Skip if objects are separating\<close>). That reading needs a normal that points from B
  to A, as the sphere-sphere normal does. \<^verbatim>\<open>BoxCollider.getCollisionInfo\<close> orients its
  normal the other way (\<^verbatim>\<open>// Ensure normal points from this to other\<close>), and
  \<^verbatim>\<open>resolveCollision\<close> uses it as it comes. So for two overlapping boxes the test is
  inverted: the box that moves towards the resting box has \<open>velAlongNormal = 1\<close> and the
  pair is left unresolved, while the box that moves away has \<open>velAlongNormal = -1\<close> and
  the pair receives an impulse, which changes the velocities from -1 and 0 to -9/20 and
  -11/20.
\<close>

theorem box_pair_sign_inverted:
  "checkCollision approachingBox restingBox \<and>
   pairInfo approachingBox restingBox =
     Some \<lparr>normal = Vector3 1 0 0, depth = 1 / 2, point = Vector3 (3 / 4) 0 0\<rparr> \<and>
   dot (vsub (velocity approachingBox) (velocity restingBox))
       (vsub (position restingBox) (position approachingBox)) > 0 \<and>
   velAlongNormal approachingBox restingBox (Vector3 1 0 0) = 1 \<and>
   collidePair approachingBox restingBox = (approachingBox, restingBox) \<and>
   checkCollision recedingBox restingBox \<and>
   pairInfo recedingBox restingBox =
     Some \<lparr>normal = Vector3 1 0 0, depth = 1 / 2, point = Vector3 (3 / 4) 0 0\<rparr> \<and>
   dot (vsub (velocity recedingBox) (velocity restingBox))
       (vsub (position restingBox) (position recedingBox)) < 0 \<and>
   velAlongNormal recedingBox restingBox (Vector3 1 0 0) = - 1 \<and>
   velocity (fst (collidePair recedingBox restingBox)) = Vector3 (- (9 / 20)) 0 0 \<and>
   velocity (snd (collidePair recedingBox restingBox)) = Vector3 (- (11 / 20)) 0 0"
proof -
  have a: "resolveCollision approachingBox restingBox = (approachingBox, restingBox)"
    by (simp add: resolveCollision_def boxes_pairInfo resolveWithInfo_separating
        velAlongNormal_def box_simps vsub_def dot_def)
  have r: "velocity (fst (resolveCollision recedingBox restingBox)) = Vector3 (- (9 / 20)) 0 0"
    "velocity (snd (resolveCollision recedingBox restingBox)) = Vector3 (- (11 / 20)) 0 0"
    by (simp_all add: resolveCollision_def boxes_pairInfo resolveWithInfo_velocity
        velAlongNormal_def impulseScalar_def box_simps vsub_def vadd_def dot_def multiplyScalar_def)
  show ?thesis
    using a r boxes_checkCollision boxes_pairInfo
    by (simp add: collidePair_def velAlongNormal_def box_simps vsub_def dot_def)
qed

end
